theory Spec2Isabelle
  imports Main "HOL-Library.AList"
begin

section \<open>Data model (models/passport\_data.py, models/g28\_data.py)\<close>

text \<open>
  A Python \<open>str\<close> is a \<open>string\<close>: the list of its code points, each below 256.
  A \<open>datetime.date\<close> is its three integer attributes. Every field of the pydantic
  models is \<open>Optional\<close> with default \<open>None\<close>, hence an \<open>option\<close>.
\<close>

record date =
  year :: nat
  month :: nat
  day :: nat

record PassportData =
  surname :: "string option"
  given_names :: "string option"
  middle_names :: "string option"
  passport_number :: "string option"
  country_of_issue :: "string option"
  nationality :: "string option"
  date_of_birth :: "date option"
  place_of_birth :: "string option"
  sex :: "string option"
  issue_date :: "date option"
  expiry_date :: "date option"

text \<open>The field \<open>zip\<close> of the source is \<open>zip_code\<close> here (\<open>zip\<close> is a list function of HOL).\<close>

record AttorneyInfo =
  first_name :: "string option"
  middle_name :: "string option"
  last_name :: "string option"
  street :: "string option"
  city :: "string option"
  state :: "string option"
  zip_code :: "string option"
  country :: "string option"
  phone :: "string option"
  email :: "string option"
  fax :: "string option"
  online_account :: "string option"

record EligibilityInfo =
  licensing_authority :: "string option"
  bar_number :: "string option"
  law_firm :: "string option"
  is_not_subject_to_orders :: "bool option"

record ClientInfo =
  first_name :: "string option"
  middle_name :: "string option"
  last_name :: "string option"
  street :: "string option"
  city :: "string option"
  state :: "string option"
  zip_code :: "string option"
  country :: "string option"
  phone :: "string option"
  email :: "string option"
  a_number :: "string option"

record G28Data =
  attorney :: "AttorneyInfo option"
  eligibility :: "EligibilityInfo option"
  client :: "ClientInfo option"

text \<open>The model built from no keyword argument at all: every field at its default.\<close>

definition empty_passport :: PassportData where
  "empty_passport =
     \<lparr>surname = None, given_names = None, middle_names = None, passport_number = None,
      country_of_issue = None, nationality = None, date_of_birth = None,
      place_of_birth = None, sex = None, issue_date = None, expiry_date = None\<rparr>"

definition empty_g28 :: G28Data where
  "empty_g28 = \<lparr>attorney = None, eligibility = None, client = None\<rparr>"

section \<open>Python strings and dictionaries\<close>

text \<open>\<open>str(n)\<close> for a non-negative integer: its decimal digits.\<close>

definition digit_char :: "nat \<Rightarrow> char" where
  "digit_char n = ''0123456789'' ! (n mod 10)"

fun str_nat :: "nat \<Rightarrow> string" where
  "str_nat n =
     (if n < 10 then [digit_char n]
      else str_nat (n div 10) @ [digit_char (n mod 10)])"

declare str_nat.simps [simp del]

text \<open>The conversion \<open>%0wd\<close>: zeros on the left up to width \<open>w\<close>, never a truncation.\<close>

definition zero_pad :: "nat \<Rightarrow> nat \<Rightarrow> string" where
  "zero_pad w n = replicate (w - length (str_nat n)) (CHR ''0'') @ str_nat n"

text \<open>
  \<open>str(d)\<close> of a \<open>datetime.date\<close> is \<open>d.isoformat()\<close>, which is
  \<^verbatim>\<open>"%04d-%02d-%02d" % (year, month, day)\<close>.
\<close>

definition isoformat :: "date \<Rightarrow> string" where
  "isoformat d = zero_pad 4 (year d) @ ''-'' @ zero_pad 2 (month d) @ ''-'' @ zero_pad 2 (day d)"

text \<open>
  A \<open>dict\<close> keeps its keys in insertion order: an association list with distinct keys.
  \<open>d[k] = v\<close> replaces the value of a key in place and appends an unknown key, which
  is \<^const>\<open>AList.update\<close>; \<open>d.get(k)\<close> is \<^const>\<open>map_of\<close>.
\<close>

type_synonym ('k, 'v) dict = "('k \<times> 'v) list"

definition setitem :: "('k, 'v) dict \<Rightarrow> 'k \<Rightarrow> 'v \<Rightarrow> ('k, 'v) dict" where
  "setitem d k v = AList.update k v d"

definition keys :: "('k, 'v) dict \<Rightarrow> 'k list" where
  "keys d = map fst d"

section \<open>FieldMapper (utils/data\_mapper.py)\<close>

text \<open>
  \<^verbatim>\<open>def get_value(val): return val if val is not None else ""\<close>
\<close>

definition get_value :: "string option \<Rightarrow> string" where
  "get_value val = (case val of None \<Rightarrow> [] | Some v \<Rightarrow> v)"

text \<open>
  The three date entries are \<^verbatim>\<open>str(d) if d else ""\<close>; a \<open>date\<close> object is always
  truthy, so the test is \<open>d is not None\<close>. (The nested helper \<open>format_date\<close> of the
  source, with its month/day/year layout, is defined there and never called.) The
  dictionary \<open>fields\<close> of the source is \<open>acc\<close> below, \<open>fields\<close> being a constant of
  the records.
\<close>

definition date_value :: "date option \<Rightarrow> string" where
  "date_value val = (case val of None \<Rightarrow> [] | Some d \<Rightarrow> isoformat d)"

definition map_passport :: "PassportData \<Rightarrow> (string, string) dict \<Rightarrow> (string, string) dict" where
  "map_passport passport_data acc =
     (let acc = setitem acc ''passport-surname'' (get_value (surname passport_data));
          acc = setitem acc ''passport-given-names'' (get_value (given_names passport_data));
          acc = setitem acc ''passport-middle-name'' (get_value (middle_names passport_data));
          acc = setitem acc ''passport-number'' (get_value (passport_number passport_data));
          acc = setitem acc ''passport-country'' (get_value (country_of_issue passport_data));
          acc = setitem acc ''passport-nationality'' (get_value (nationality passport_data));
          acc = setitem acc ''passport-dob'' (date_value (date_of_birth passport_data));
          acc = setitem acc ''passport-pob'' (get_value (place_of_birth passport_data));
          acc = setitem acc ''passport-sex'' (get_value (sex passport_data));
          acc = setitem acc ''passport-issue-date'' (date_value (issue_date passport_data));
          acc = setitem acc ''passport-expiry-date'' (date_value (expiry_date passport_data))
      in acc)"

definition map_attorney :: "AttorneyInfo \<Rightarrow> (string, string) dict \<Rightarrow> (string, string) dict" where
  "map_attorney a acc =
     (let acc = setitem acc ''online-account'' (get_value (online_account a));
          acc = setitem acc ''family-name'' (get_value (AttorneyInfo.last_name a));
          acc = setitem acc ''given-name'' (get_value (AttorneyInfo.first_name a));
          acc = setitem acc ''middle-name'' (get_value (AttorneyInfo.middle_name a));
          acc = setitem acc ''street-number'' (get_value (AttorneyInfo.street a));
          acc = setitem acc ''city'' (get_value (AttorneyInfo.city a));
          acc = setitem acc ''state'' (get_value (AttorneyInfo.state a));
          acc = setitem acc ''zip'' (get_value (AttorneyInfo.zip_code a));
          acc = setitem acc ''country'' (get_value (AttorneyInfo.country a));
          acc = setitem acc ''daytime-phone'' (get_value (AttorneyInfo.phone a));
          acc = setitem acc ''email'' (get_value (AttorneyInfo.email a))
      in acc)"

definition map_eligibility :: "EligibilityInfo \<Rightarrow> (string, string) dict \<Rightarrow> (string, string) dict" where
  "map_eligibility e acc =
     (let acc = setitem acc ''licensing-authority'' (get_value (licensing_authority e));
          acc = setitem acc ''bar-number'' (get_value (bar_number e));
          acc = setitem acc ''law-firm'' (get_value (law_firm e))
      in acc)"

text \<open>
  \<open>map_to_form_fields\<close>: the three blocks of the source in their order. A model
  instance is always truthy, so \<^verbatim>\<open>if g28_data.attorney:\<close> tests for \<open>None\<close>. The
  client group is not read.
\<close>

definition map_to_form_fields :: "PassportData \<Rightarrow> G28Data \<Rightarrow> (string, string) dict" where
  "map_to_form_fields passport_data g28_data =
     (let acc = [];
          acc = map_passport passport_data acc;
          acc = (case attorney g28_data of None \<Rightarrow> acc | Some a \<Rightarrow> map_attorney a acc);
          acc = (case eligibility g28_data of None \<Rightarrow> acc | Some e \<Rightarrow> map_eligibility e acc)
      in acc)"

definition get_checkbox_fields :: "G28Data \<Rightarrow> (string, bool) dict" where
  "get_checkbox_fields g28_data =
     (let checkboxes = [];
          checkboxes =
            (case eligibility g28_data of
               None \<Rightarrow> checkboxes
             | Some e \<Rightarrow>
                 (case is_not_subject_to_orders e of
                    None \<Rightarrow> checkboxes
                  | Some b \<Rightarrow> setitem checkboxes ''not-subject'' b))
      in checkboxes)"

text \<open>The identifiers each block writes, in the order of the source.\<close>

definition passport_ids :: "string list" where
  "passport_ids =
     [''passport-surname'', ''passport-given-names'', ''passport-middle-name'',
      ''passport-number'', ''passport-country'', ''passport-nationality'', ''passport-dob'',
      ''passport-pob'', ''passport-sex'', ''passport-issue-date'', ''passport-expiry-date'']"

definition attorney_ids :: "string list" where
  "attorney_ids =
     [''online-account'', ''family-name'', ''given-name'', ''middle-name'', ''street-number'',
      ''city'', ''state'', ''zip'', ''country'', ''daytime-phone'', ''email'']"

definition eligibility_ids :: "string list" where
  "eligibility_ids = [''licensing-authority'', ''bar-number'', ''law-firm'']"

definition passport_entries :: "PassportData \<Rightarrow> (string, string) dict" where
  "passport_entries p =
     [(''passport-surname'', get_value (surname p)),
      (''passport-given-names'', get_value (given_names p)),
      (''passport-middle-name'', get_value (middle_names p)),
      (''passport-number'', get_value (passport_number p)),
      (''passport-country'', get_value (country_of_issue p)),
      (''passport-nationality'', get_value (nationality p)),
      (''passport-dob'', date_value (date_of_birth p)),
      (''passport-pob'', get_value (place_of_birth p)),
      (''passport-sex'', get_value (sex p)),
      (''passport-issue-date'', date_value (issue_date p)),
      (''passport-expiry-date'', date_value (expiry_date p))]"

definition attorney_entries :: "AttorneyInfo \<Rightarrow> (string, string) dict" where
  "attorney_entries a =
     [(''online-account'', get_value (online_account a)),
      (''family-name'', get_value (AttorneyInfo.last_name a)),
      (''given-name'', get_value (AttorneyInfo.first_name a)),
      (''middle-name'', get_value (AttorneyInfo.middle_name a)),
      (''street-number'', get_value (AttorneyInfo.street a)),
      (''city'', get_value (AttorneyInfo.city a)),
      (''state'', get_value (AttorneyInfo.state a)),
      (''zip'', get_value (AttorneyInfo.zip_code a)),
      (''country'', get_value (AttorneyInfo.country a)),
      (''daytime-phone'', get_value (AttorneyInfo.phone a)),
      (''email'', get_value (AttorneyInfo.email a))]"

definition eligibility_entries :: "EligibilityInfo \<Rightarrow> (string, string) dict" where
  "eligibility_entries e =
     [(''licensing-authority'', get_value (licensing_authority e)),
      (''bar-number'', get_value (bar_number e)),
      (''law-firm'', get_value (law_firm e))]"

definition empty_attorney :: AttorneyInfo where
  "empty_attorney =
     \<lparr>AttorneyInfo.first_name = None, AttorneyInfo.middle_name = None,
      AttorneyInfo.last_name = None, AttorneyInfo.street = None, AttorneyInfo.city = None,
      AttorneyInfo.state = None, AttorneyInfo.zip_code = None, AttorneyInfo.country = None,
      AttorneyInfo.phone = None, AttorneyInfo.email = None, fax = None,
      online_account = None\<rparr>"

definition empty_eligibility :: EligibilityInfo where
  "empty_eligibility =
     \<lparr>licensing_authority = None, bar_number = None, law_firm = None,
      is_not_subject_to_orders = None\<rparr>"

section \<open>Python values and string methods\<close>

text \<open>
  What \<open>json.loads\<close> returns is built from \<open>None\<close>, \<open>bool\<close>, \<open>int\<close>, \<open>float\<close>, \<open>str\<close>,
  \<open>list\<close> and \<open>dict\<close> (with string keys). The extractor stores \<open>datetime.date\<close>
  objects into such a dictionary, so dates are values too. A float is \<open>m * 2 ^ e\<close>,
  an infinity or a NaN; only whether it is zero is ever looked at.
\<close>

datatype pyfloat = Finite int int | Infinite bool | NaN

datatype pyval =
    PNone
  | PBool bool
  | PInt int
  | PFloat pyfloat
  | PStr string
  | PList "pyval list"
  | PDict "(string \<times> pyval) list"
  | PDate date

text \<open>The truth value of an object, as \<open>if x\<close> and \<open>x and y\<close> test it.\<close>

fun truthy :: "pyval \<Rightarrow> bool" where
  "truthy PNone = False"
| "truthy (PBool b) = b"
| "truthy (PInt i) = (i \<noteq> 0)"
| "truthy (PFloat (Finite m e)) = (m \<noteq> 0)"
| "truthy (PFloat (Infinite s)) = True"
| "truthy (PFloat NaN) = True"
| "truthy (PStr s) = (s \<noteq> [])"
| "truthy (PList xs) = (xs \<noteq> [])"
| "truthy (PDict d) = (d \<noteq> [])"
| "truthy (PDate d) = True"

fun type_name :: "pyval \<Rightarrow> string" where
  "type_name PNone = ''NoneType''"
| "type_name (PBool b) = ''bool''"
| "type_name (PInt i) = ''int''"
| "type_name (PFloat f) = ''float''"
| "type_name (PStr s) = ''str''"
| "type_name (PList xs) = ''list''"
| "type_name (PDict d) = ''dict''"
| "type_name (PDate d) = ''datetime.date''"

fun is_dict :: "pyval \<Rightarrow> bool" where
  "is_dict (PDict d) = True"
| "is_dict _ = False"

text \<open>
  Exceptions, each with its \<open>str(e)\<close>. \<open>ValueError\<close> stands for the class itself
  and those of its subclasses that are not named here. Two subclasses are kept apart:
  \<open>json.JSONDecodeError\<close>, which the extractor catches by name, and pydantic's
  \<open>ValidationError\<close>, whose text is pydantic's: it carries the model's name and the
  names of the rejected fields. \<open>OtherError\<close> is any other subclass of \<open>Exception\<close>
  (\<open>AttributeError\<close>, \<open>TypeError\<close>, \<open>RecursionError\<close>, the errors of the remote
  service).
\<close>

datatype exn =
    ValueError string
  | JSONDecodeError string
  | ValidationError string "string list"
  | OtherError string

fun is_value_error :: "exn \<Rightarrow> bool" where
  "is_value_error (ValueError m) = True"
| "is_value_error (JSONDecodeError m) = True"
| "is_value_error (ValidationError cls bad) = True"
| "is_value_error (OtherError m) = False"

text \<open>\<open>obj.get(key, default)\<close>: only a \<open>dict\<close> has the method.\<close>

definition attribute_text :: "pyval \<Rightarrow> string \<Rightarrow> string" where
  "attribute_text obj name =
     [CHR 0x27] @ type_name obj @ [CHR 0x27] @ '' object has no attribute ''
     @ [CHR 0x27] @ name @ [CHR 0x27]"

definition attribute_error :: "pyval \<Rightarrow> string \<Rightarrow> exn" where
  "attribute_error obj name = OtherError (attribute_text obj name)"

definition py_get :: "pyval \<Rightarrow> string \<Rightarrow> pyval \<Rightarrow> exn + pyval" where
  "py_get obj key dflt =
     (case obj of
        PDict d \<Rightarrow> Inr (case map_of d key of None \<Rightarrow> dflt | Some v \<Rightarrow> v)
      | _ \<Rightarrow> Inl (attribute_error obj ''get''))"

text \<open>
  \<open>s.startswith(p)\<close>, \<open>s.endswith(p)\<close>, \<open>sub in s\<close>, \<open>s.lower()\<close> and \<open>s.strip()\<close>.
  Below code point 256 the upper-case letters are \<open>A\<close> to \<open>Z\<close> and 192 to 222 without
  215, each 32 below its lower-case letter; the white space is 9 to 13, 28 to 32, 133
  and 160.
\<close>

definition startswith :: "string \<Rightarrow> string \<Rightarrow> bool" where
  "startswith s p = (take (length p) s = p)"

definition endswith :: "string \<Rightarrow> string \<Rightarrow> bool" where
  "endswith s p = (length p \<le> length s \<and> drop (length s - length p) s = p)"

fun contains :: "string \<Rightarrow> string \<Rightarrow> bool" where
  "contains sub [] = (sub = [])"
| "contains sub (c # cs) = (startswith (c # cs) sub \<or> contains sub cs)"

definition lower_char :: "char \<Rightarrow> char" where
  "lower_char c =
     (let n = (of_char c :: nat)
      in if (65 \<le> n \<and> n \<le> 90) \<or> (192 \<le> n \<and> n \<le> 222 \<and> n \<noteq> 215)
         then char_of (n + 32) else c)"

definition lower :: "string \<Rightarrow> string" where
  "lower s = map lower_char s"

definition is_space :: "char \<Rightarrow> bool" where
  "is_space c =
     (let n = (of_char c :: nat)
      in (9 \<le> n \<and> n \<le> 13) \<or> (28 \<le> n \<and> n \<le> 32) \<or> n = 133 \<or> n = 160)"

definition strip :: "string \<Rightarrow> string" where
  "strip s = rev (dropWhile is_space (rev (dropWhile is_space s)))"

text \<open>Whether two texts share a fragment: some character of the first occurs in the second.\<close>

definition common_fragment :: "string \<Rightarrow> string \<Rightarrow> bool" where
  "common_fragment a b = list_ex (\<lambda>c. contains [c] b) a"

definition nl :: string where
  "nl = [CHR 0x0A]"

section \<open>Configuration (config.py) and library functions\<close>

text \<open>The settings read from the environment when \<open>config.py\<close> is loaded.\<close>

record config =
  GEMINI_MODEL_NAME :: string
  FORM_URL :: string
  HEADLESS_MODE :: bool

text \<open>
  The libraries the extractor calls are parameters of the model; every general theorem
  holds for all of them.
  \<^item> \<open>generate_content L name prompt\<close>: \<open>genai.GenerativeModel(name)\<close>,
    \<open>model.generate_content(prompt)\<close> and the read of \<open>response.text\<close>: the text, or the
    exception one of the three raises.
  \<^item> \<open>json_loads L s\<close>: \<open>json.loads(s)\<close>: the decoded value, or the exception it
    raises, which is a \<open>JSONDecodeError\<close> for a text that is no JSON document, and
    can be another one (a \<open>RecursionError\<close> for a text nested too deeply, a plain
    \<open>ValueError\<close> for an integer of too many digits).
  \<^item> \<open>strptime L s\<close>: \<open>datetime.strptime(s, '%Y-%m-%d').date()\<close>; \<open>None\<close> is its
    \<open>ValueError\<close>.
  \<^item> \<open>lax_str\<close>, \<open>lax_bool\<close>, \<open>lax_date\<close>: what pydantic makes of a value that is neither
    \<open>None\<close> nor of the field's own type (its coercions); \<open>None\<close> is a rejection.
  \<^item> \<open>kwargs_error L cls v\<close>: the text of the \<open>TypeError\<close> of \<open>cls(**v)\<close> for a \<open>v\<close> that is
    not a mapping.
\<close>

record libs =
  generate_content :: "string \<Rightarrow> string \<Rightarrow> exn + string"
  json_loads :: "string \<Rightarrow> exn + pyval"
  strptime :: "string \<Rightarrow> date option"
  lax_str :: "pyval \<Rightarrow> string option"
  lax_bool :: "pyval \<Rightarrow> bool option"
  lax_date :: "pyval \<Rightarrow> date option"
  kwargs_error :: "string \<Rightarrow> pyval \<Rightarrow> string"

subsection \<open>A reference \<open>strptime\<close> for the format \<open>%Y-%m-%d\<close>\<close>

text \<open>
  CPython compiles the format to the regular expression
  \<^verbatim>\<open>(?P<Y>\d\d\d\d)-(?P<m>1[0-2]|0[1-9]|[1-9])-(?P<d>3[0-1]|[1-2]\d|0[1-9]|[1-9]| [1-9])\<close>,
  matches it at the start of the string, raises \<open>ValueError\<close> when text remains after the
  match, and builds a \<open>date\<close>, which raises \<open>ValueError\<close> for year 0 or a day the month
  does not have.
\<close>

definition is_digit :: "char \<Rightarrow> bool" where
  "is_digit c = (c \<in> set ''0123456789'')"

definition digit_val :: "char \<Rightarrow> nat" where
  "digit_val c = length (takeWhile (\<lambda>d. d \<noteq> c) ''0123456789'')"

definition int_of_digits :: "string \<Rightarrow> nat" where
  "int_of_digits s = foldl (\<lambda>n c. 10 * n + digit_val c) 0 s"

fun month_two :: "string \<Rightarrow> bool" where
  "month_two [a, b] = ((a = CHR ''1'' \<and> b \<in> set ''012'') \<or> (a = CHR ''0'' \<and> b \<in> set ''123456789''))"
| "month_two _ = False"

fun one_to_nine :: "string \<Rightarrow> bool" where
  "one_to_nine [a] = (a \<in> set ''123456789'')"
| "one_to_nine _ = False"

fun day_two :: "string \<Rightarrow> bool" where
  "day_two [a, b] =
     ((a = CHR ''3'' \<and> b \<in> set ''01'') \<or> (a \<in> set ''12'' \<and> is_digit b)
      \<or> (a = CHR ''0'' \<and> b \<in> set ''123456789''))"
| "day_two _ = False"

fun space_digit :: "string \<Rightarrow> bool" where
  "space_digit [a, b] = (a = CHR '' '' \<and> b \<in> set ''123456789'')"
| "space_digit _ = False"

text \<open>The month group and the hyphen after it; the day group. Each gives the rest.\<close>

definition match_month :: "string \<Rightarrow> (nat \<times> string) option" where
  "match_month s =
     (if month_two (take 2 s) \<and> take 1 (drop 2 s) = ''-''
        then Some (int_of_digits (take 2 s), drop 3 s)
      else if one_to_nine (take 1 s) \<and> take 1 (drop 1 s) = ''-''
        then Some (int_of_digits (take 1 s), drop 2 s)
      else None)"

definition match_day :: "string \<Rightarrow> (nat \<times> string) option" where
  "match_day s =
     (if day_two (take 2 s) then Some (int_of_digits (take 2 s), drop 2 s)
      else if one_to_nine (take 1 s) then Some (int_of_digits (take 1 s), drop 1 s)
      else if space_digit (take 2 s) then Some (int_of_digits (drop 1 (take 2 s)), drop 2 s)
      else None)"

definition is_leap :: "nat \<Rightarrow> bool" where
  "is_leap y = (y mod 4 = 0 \<and> (y mod 100 \<noteq> 0 \<or> y mod 400 = 0))"

definition days_in_month :: "nat \<Rightarrow> nat \<Rightarrow> nat" where
  "days_in_month y m =
     (if m = 2 then (if is_leap y then 29 else 28)
      else if m = 4 \<or> m = 6 \<or> m = 9 \<or> m = 11 then 30 else 31)"

definition make_date :: "nat \<Rightarrow> nat \<Rightarrow> nat \<Rightarrow> date option" where
  "make_date y m d =
     (if 1 \<le> y \<and> y \<le> 9999 \<and> 1 \<le> m \<and> m \<le> 12 \<and> 1 \<le> d \<and> d \<le> days_in_month y m
      then Some \<lparr>year = y, month = m, day = d\<rparr> else None)"

definition strptime_ymd :: "string \<Rightarrow> date option" where
  "strptime_ymd s =
     (if length (take 4 s) = 4 \<and> list_all is_digit (take 4 s) \<and> take 1 (drop 4 s) = ''-''
      then (case match_month (drop 5 s) of
              None \<Rightarrow> None
            | Some (m, r) \<Rightarrow>
                (case match_day r of
                   None \<Rightarrow> None
                 | Some (d, rest) \<Rightarrow>
                     if rest = [] then make_date (int_of_digits (take 4 s)) m d else None))
      else None)"

section \<open>Model construction (pydantic)\<close>

text \<open>
  \<open>Cls(**kw)\<close> validates every declared field: a key that is missing takes the default
  \<open>None\<close>, a key that is no field is ignored, \<open>None\<close> and a value of the field's type are
  kept, any other value goes through the coercion. All rejected fields are reported
  together, in the order of declaration, by one \<open>ValidationError\<close>.
\<close>

definition opt_str :: "libs \<Rightarrow> pyval \<Rightarrow> string option option" where
  "opt_str L v =
     (case v of PNone \<Rightarrow> Some None | PStr s \<Rightarrow> Some (Some s) | _ \<Rightarrow> map_option Some (lax_str L v))"

definition opt_bool :: "libs \<Rightarrow> pyval \<Rightarrow> bool option option" where
  "opt_bool L v =
     (case v of PNone \<Rightarrow> Some None | PBool b \<Rightarrow> Some (Some b) | _ \<Rightarrow> map_option Some (lax_bool L v))"

definition opt_date :: "libs \<Rightarrow> pyval \<Rightarrow> date option option" where
  "opt_date L v =
     (case v of PNone \<Rightarrow> Some None | PDate d \<Rightarrow> Some (Some d) | _ \<Rightarrow> map_option Some (lax_date L v))"

definition field :: "(pyval \<Rightarrow> 'a option option) \<Rightarrow> (string, pyval) dict \<Rightarrow> string \<Rightarrow> 'a option option" where
  "field validate kw name = (case map_of kw name of None \<Rightarrow> Some None | Some v \<Rightarrow> validate v)"

definition rejected :: "(string \<Rightarrow> 'a option option) \<Rightarrow> string \<Rightarrow> string list" where
  "rejected f name = (if f name = None then [name] else [])"

definition valid :: "'a option option \<Rightarrow> 'a option" where
  "valid r = (case r of None \<Rightarrow> None | Some x \<Rightarrow> x)"

definition build :: "string \<Rightarrow> string list \<Rightarrow> 'm \<Rightarrow> exn + 'm" where
  "build cls bad m = (if bad \<noteq> [] then Inl (ValidationError cls bad) else Inr m)"

definition PassportData_init :: "libs \<Rightarrow> (string, pyval) dict \<Rightarrow> exn + PassportData" where
  "PassportData_init L kw =
     (let s = field (opt_str L) kw; d = field (opt_date L) kw;
          bad = rejected s ''surname'' @ rejected s ''given_names'' @ rejected s ''middle_names''
                @ rejected s ''passport_number'' @ rejected s ''country_of_issue''
                @ rejected s ''nationality'' @ rejected d ''date_of_birth''
                @ rejected s ''place_of_birth'' @ rejected s ''sex'' @ rejected d ''issue_date''
                @ rejected d ''expiry_date''
      in build ''PassportData'' bad
           \<lparr>surname = valid (s ''surname''), given_names = valid (s ''given_names''),
            middle_names = valid (s ''middle_names''),
            passport_number = valid (s ''passport_number''),
            country_of_issue = valid (s ''country_of_issue''),
            nationality = valid (s ''nationality''),
            date_of_birth = valid (d ''date_of_birth''),
            place_of_birth = valid (s ''place_of_birth''), sex = valid (s ''sex''),
            issue_date = valid (d ''issue_date''),
            expiry_date = valid (d ''expiry_date'')\<rparr>)"

definition AttorneyInfo_init :: "libs \<Rightarrow> (string, pyval) dict \<Rightarrow> exn + AttorneyInfo" where
  "AttorneyInfo_init L kw =
     (let s = field (opt_str L) kw;
          bad = rejected s ''first_name'' @ rejected s ''middle_name'' @ rejected s ''last_name''
                @ rejected s ''street'' @ rejected s ''city'' @ rejected s ''state''
                @ rejected s ''zip'' @ rejected s ''country'' @ rejected s ''phone''
                @ rejected s ''email'' @ rejected s ''fax'' @ rejected s ''online_account''
      in build ''AttorneyInfo'' bad
           \<lparr>AttorneyInfo.first_name = valid (s ''first_name''),
            AttorneyInfo.middle_name = valid (s ''middle_name''),
            AttorneyInfo.last_name = valid (s ''last_name''),
            AttorneyInfo.street = valid (s ''street''),
            AttorneyInfo.city = valid (s ''city''),
            AttorneyInfo.state = valid (s ''state''),
            AttorneyInfo.zip_code = valid (s ''zip''),
            AttorneyInfo.country = valid (s ''country''),
            AttorneyInfo.phone = valid (s ''phone''),
            AttorneyInfo.email = valid (s ''email''),
            fax = valid (s ''fax''), online_account = valid (s ''online_account'')\<rparr>)"

definition EligibilityInfo_init :: "libs \<Rightarrow> (string, pyval) dict \<Rightarrow> exn + EligibilityInfo" where
  "EligibilityInfo_init L kw =
     (let s = field (opt_str L) kw; b = field (opt_bool L) kw;
          bad = rejected s ''licensing_authority'' @ rejected s ''bar_number''
                @ rejected s ''law_firm'' @ rejected b ''is_not_subject_to_orders''
      in build ''EligibilityInfo'' bad
           \<lparr>licensing_authority = valid (s ''licensing_authority''),
            bar_number = valid (s ''bar_number''), law_firm = valid (s ''law_firm''),
            is_not_subject_to_orders = valid (b ''is_not_subject_to_orders'')\<rparr>)"

definition ClientInfo_init :: "libs \<Rightarrow> (string, pyval) dict \<Rightarrow> exn + ClientInfo" where
  "ClientInfo_init L kw =
     (let s = field (opt_str L) kw;
          bad = rejected s ''first_name'' @ rejected s ''middle_name'' @ rejected s ''last_name''
                @ rejected s ''street'' @ rejected s ''city'' @ rejected s ''state''
                @ rejected s ''zip'' @ rejected s ''country'' @ rejected s ''phone''
                @ rejected s ''email'' @ rejected s ''a_number''
      in build ''ClientInfo'' bad
           \<lparr>ClientInfo.first_name = valid (s ''first_name''),
            ClientInfo.middle_name = valid (s ''middle_name''),
            ClientInfo.last_name = valid (s ''last_name''),
            ClientInfo.street = valid (s ''street''),
            ClientInfo.city = valid (s ''city''),
            ClientInfo.state = valid (s ''state''),
            ClientInfo.zip_code = valid (s ''zip''),
            ClientInfo.country = valid (s ''country''),
            ClientInfo.phone = valid (s ''phone''),
            ClientInfo.email = valid (s ''email''),
            a_number = valid (s ''a_number'')\<rparr>)"

section \<open>StructuredExtractor (extractors/combined\_extraction.py)\<close>

subsection \<open>The prompt\<close>

definition prompt_head :: string where
  "prompt_head =
     ''Extract structured data from passport and G-28 form text.'' @ nl @
     nl @
     ''IMPORTANT: Cross-validate data - the client name in G-28 should match '' @ nl @
     ''the passport holder name. If there are discrepancies, give the passport data and note them in validation_notes, '' @ nl @
     nl @
     ''Passport Text:'' @ nl"

definition prompt_middle :: string where
  "prompt_middle =
     nl @
     nl @
     ''G-28 Form Text:'' @ nl"

definition prompt_schema :: string where
  "prompt_schema =
     nl @
     nl @
     ''Return ONLY valid JSON with no additional text, comments, or markdown formatting.'' @ nl @
     nl @
     ''The JSON must have this exact structure:'' @ nl @
     ''{'' @ nl @
     ''  \"passport\": {'' @ nl @
     ''    \"surname\": \"string or null\",'' @ nl @
     ''    \"given_names\": \"string or null\",'' @ nl @
     ''    \"middle_names\": \"string or null\",'' @ nl @
     ''    \"passport_number\": \"string or null\",'' @ nl @
     ''    \"country_of_issue\": \"string or null\",'' @ nl @
     ''    \"nationality\": \"string or null\",'' @ nl @
     ''    \"date_of_birth\": \"YYYY-MM-DD or null\",'' @ nl @
     ''    \"place_of_birth\": \"string or null\",'' @ nl @
     ''    \"sex\": \"M/F/X or null\",'' @ nl @
     ''    \"issue_date\": \"YYYY-MM-DD or null\",'' @ nl @
     ''    \"expiry_date\": \"YYYY-MM-DD or null\"'' @ nl @
     ''  },'' @ nl @
     ''  \"g28\": {'' @ nl @
     ''    \"attorney\": {'' @ nl @
     ''      \"first_name\": \"string or null\",'' @ nl @
     ''      \"middle_name\": \"string or null\",'' @ nl @
     ''      \"last_name\": \"string or null\",'' @ nl @
     ''      \"street\": \"string or null\",'' @ nl @
     ''      \"city\": \"string or null\",'' @ nl @
     ''      \"state\": \"string or null (use state abbreviation if available)\",'' @ nl @
     ''      \"zip\": \"string or null\",'' @ nl @
     ''      \"country\": \"string or null\",'' @ nl @
     ''      \"phone\": \"string or null\",'' @ nl @
     ''      \"email\": \"string or null\",'' @ nl @
     ''      \"fax\": \"string or null\",'' @ nl @
     ''      \"online_account\": \"string or null\"'' @ nl @
     ''    },'' @ nl @
     ''    \"eligibility\": {'' @ nl @
     ''      \"licensing_authority\": \"string or null\",'' @ nl @
     ''      \"bar_number\": \"string or null\",'' @ nl @
     ''      \"law_firm\": \"string or null\",'' @ nl @
     ''      \"is_not_subject_to_orders\": true or false or null'' @ nl @
     ''    },'' @ nl @
     ''    \"client\": {'' @ nl @
     ''      \"first_name\": \"string or null\",'' @ nl @
     ''      \"middle_name\": \"string or null\",'' @ nl @
     ''      \"last_name\": \"string or null\",'' @ nl @
     ''      \"street\": \"string or null\",'' @ nl @
     ''      \"city\": \"string or null\",'' @ nl @
     ''      \"state\": \"string or null\",'' @ nl @
     ''      \"zip\": \"string or null\",'' @ nl @
     ''      \"country\": \"string or null\",'' @ nl @
     ''      \"phone\": \"string or null\",'' @ nl @
     ''      \"email\": \"string or null\",'' @ nl @
     ''      \"a_number\": \"string or null\"'' @ nl @
     ''    }'' @ nl @
     ''  },'' @ nl @
     ''  \"validation_notes\": \"string or null - any discrepancies or validation issues\"'' @ nl @
     ''}''"

definition prompt :: "string \<Rightarrow> string \<Rightarrow> string" where
  "prompt passport_text g28_text =
     prompt_head @ passport_text @ prompt_middle @ g28_text @ prompt_schema"

subsection \<open>Removing the code fence\<close>

text \<open>
  The slices \<open>s[7:]\<close>, \<open>s[3:]\<close> and \<open>s[:-3]\<close> are \<^const>\<open>drop\<close> and \<^const>\<open>take\<close>; the
  last is taken only of a text that ends with the three backquotes, so of length 3 at
  least.
\<close>

definition fence :: string where
  "fence = [CHR 0x60, CHR 0x60, CHR 0x60]"

definition strip_fences :: "string \<Rightarrow> string" where
  "strip_fences text =
     (let response_text = strip text;
          response_text = (if startswith response_text (fence @ ''json'')
                           then drop 7 response_text else response_text);
          response_text = (if startswith response_text fence
                           then drop 3 response_text else response_text);
          response_text = (if endswith response_text fence
                           then take (length response_text - 3) response_text
                           else response_text)
      in strip response_text)"

subsection \<open>The three date fields\<close>

text \<open>
  One round of the loop over \<open>date_of_birth\<close>, \<open>issue_date\<close>, \<open>expiry_date\<close>: a value
  that is truthy and a \<open>str\<close> is replaced by the parsed date, or by \<open>None\<close> when parsing
  raises; any other value stays. The first \<open>passport_dict.get\<close> raises \<open>AttributeError\<close>
  when \<open>passport_dict\<close> is no dictionary.
\<close>

definition date_fields :: "string list" where
  "date_fields = [''date_of_birth'', ''issue_date'', ''expiry_date'']"

definition convert_date_field :: "libs \<Rightarrow> (string, pyval) dict \<Rightarrow> string \<Rightarrow> (string, pyval) dict" where
  "convert_date_field L passport_dict date_field =
     (case map_of passport_dict date_field of
        None \<Rightarrow> passport_dict
      | Some v \<Rightarrow>
          (case v of
             PStr s \<Rightarrow>
               if truthy v
               then setitem passport_dict date_field
                      (case strptime L s of Some d \<Rightarrow> PDate d | None \<Rightarrow> PNone)
               else passport_dict
           | _ \<Rightarrow> passport_dict))"

text \<open>
  What a round leaves under its field, given what was there; and the attribute of the
  record that a field name denotes.
\<close>

definition convert_value :: "libs \<Rightarrow> pyval option \<Rightarrow> pyval option" where
  "convert_value L x =
     (case x of
        Some (PStr s) \<Rightarrow>
          if s \<noteq> [] then Some (case strptime L s of Some d \<Rightarrow> PDate d | None \<Rightarrow> PNone)
          else Some (PStr s)
      | _ \<Rightarrow> x)"

definition date_attr :: "string \<Rightarrow> PassportData \<Rightarrow> date option" where
  "date_attr name p =
     (if name = ''date_of_birth'' then date_of_birth p
      else if name = ''issue_date'' then issue_date p
      else expiry_date p)"

definition convert_dates :: "libs \<Rightarrow> pyval \<Rightarrow> exn + (string, pyval) dict" where
  "convert_dates L passport_dict =
     (case passport_dict of
        PDict d \<Rightarrow> Inr (foldl (convert_date_field L) d date_fields)
      | _ \<Rightarrow> Inl (attribute_error passport_dict ''get''))"

subsection \<open>From the decoded response to the two records\<close>

text \<open>
  \<^verbatim>\<open>Cls(**g28_dict.get(key, {})) if g28_dict.get(key) else None\<close>: \<open>AttributeError\<close>
  when \<open>g28_dict\<close> is no dictionary, \<open>None\<close> for a falsy value, the model for a dictionary,
  \<open>TypeError\<close> for any other truthy value.
\<close>

definition optional_group ::
  "libs \<Rightarrow> string \<Rightarrow> ((string, pyval) dict \<Rightarrow> exn + 'm) \<Rightarrow> pyval \<Rightarrow> string \<Rightarrow> exn + 'm option" where
  "optional_group L cls init g28_dict key =
     (case py_get g28_dict key PNone of
        Inl e \<Rightarrow> Inl e
      | Inr v \<Rightarrow>
          if truthy v
          then (case v of
                  PDict kw \<Rightarrow> (case init kw of Inl e \<Rightarrow> Inl e | Inr m \<Rightarrow> Inr (Some m))
                | _ \<Rightarrow> Inl (OtherError (kwargs_error L cls v)))
          else Inr None)"

definition passport_of :: "libs \<Rightarrow> pyval \<Rightarrow> exn + PassportData" where
  "passport_of L data =
     (case py_get data ''passport'' (PDict []) of
        Inl e \<Rightarrow> Inl e
      | Inr passport_dict \<Rightarrow>
          (case convert_dates L passport_dict of
             Inl e \<Rightarrow> Inl e
           | Inr passport_dict \<Rightarrow> PassportData_init L passport_dict))"

definition g28_of :: "libs \<Rightarrow> pyval \<Rightarrow> exn + G28Data" where
  "g28_of L data =
     (case py_get data ''g28'' (PDict []) of
        Inl e \<Rightarrow> Inl e
      | Inr g28_dict \<Rightarrow>
          (case optional_group L ''AttorneyInfo'' (AttorneyInfo_init L) g28_dict ''attorney'' of
             Inl e \<Rightarrow> Inl e
           | Inr a \<Rightarrow>
               (case optional_group L ''EligibilityInfo'' (EligibilityInfo_init L) g28_dict
                       ''eligibility'' of
                  Inl e \<Rightarrow> Inl e
                | Inr el \<Rightarrow>
                    (case optional_group L ''ClientInfo'' (ClientInfo_init L) g28_dict ''client'' of
                       Inl e \<Rightarrow> Inl e
                     | Inr c \<Rightarrow> Inr \<lparr>attorney = a, eligibility = el, client = c\<rparr>))))"

text \<open>
  The passport record is built first, then the G-28 record. The validation notes are
  only logged.
\<close>

definition parse_records :: "libs \<Rightarrow> pyval \<Rightarrow> exn + (PassportData \<times> G28Data)" where
  "parse_records L data =
     (case passport_of L data of
        Inl e \<Rightarrow> Inl e
      | Inr passport_data \<Rightarrow>
          (case g28_of L data of
             Inl e \<Rightarrow> Inl e
           | Inr g28_data \<Rightarrow> Inr (passport_data, g28_data)))"

subsection \<open>The failure messages\<close>

definition invalid_json_message :: "string \<Rightarrow> string" where
  "invalid_json_message json_err =
     ''Gemini API returned invalid JSON format. JSON parsing error: '' @ json_err"

definition authentication_message :: string where
  "authentication_message =
     ''Gemini API authentication failed. Please verify your GEMINI_API_KEY in .env file.''"

definition quota_message :: string where
  "quota_message = ''Gemini API quota exceeded or rate limit reached. Please try again later.''"

definition model_message :: "config \<Rightarrow> string" where
  "model_message C =
     ''Invalid Gemini model name: '' @ GEMINI_MODEL_NAME C
     @ ''. Please check GEMINI_MODEL_NAME in .env file.''"

definition generic_message :: "string \<Rightarrow> string" where
  "generic_message error_msg =
     ''LLM extraction error: '' @ error_msg
     @ ''. Please check your API key and model configuration.''"

text \<open>The \<open>if\<close>/\<open>elif\<close> chain of the handler \<open>except Exception as e\<close>.\<close>

definition classify :: "config \<Rightarrow> string \<Rightarrow> string" where
  "classify C error_msg =
     (if contains ''API key'' error_msg \<or> contains ''authentication'' (lower error_msg)
        then authentication_message
      else if contains ''quota'' (lower error_msg) \<or> contains ''rate limit'' (lower error_msg)
        then quota_message
      else if contains ''model'' (lower error_msg)
        then model_message C
      else generic_message error_msg)"

text \<open>
  The two handlers of the outer \<open>try\<close>: a \<open>ValueError\<close> is raised again as it is, any
  other exception is replaced by a \<open>ValueError\<close> with the classified message.
\<close>

definition handle_errors :: "config \<Rightarrow> exn + 'a \<Rightarrow> exn + 'a" where
  "handle_errors C r =
     (case r of
        Inl (OtherError error_msg) \<Rightarrow> Inl (ValueError (classify C error_msg))
      | _ \<Rightarrow> r)"

subsection \<open>\<open>extract_data\<close>\<close>

text \<open>
  The body of the outer \<open>try\<close>. The inner handler \<open>except json.JSONDecodeError\<close>
  replaces that exception by a \<open>ValueError\<close> with the invalid-JSON message; any other
  exception of \<open>json.loads\<close> leaves the body as it is.
\<close>

definition extract_body :: "config \<Rightarrow> libs \<Rightarrow> string \<Rightarrow> string \<Rightarrow> exn + (PassportData \<times> G28Data)" where
  "extract_body C L passport_text g28_text =
     (case generate_content L (GEMINI_MODEL_NAME C) (prompt passport_text g28_text) of
        Inl e \<Rightarrow> Inl e
      | Inr text \<Rightarrow>
          (case json_loads L (strip_fences text) of
             Inl e \<Rightarrow>
               (case e of
                  JSONDecodeError json_err \<Rightarrow> Inl (ValueError (invalid_json_message json_err))
                | _ \<Rightarrow> Inl e)
           | Inr data \<Rightarrow> parse_records L data))"

definition extract_data :: "config \<Rightarrow> libs \<Rightarrow> string \<Rightarrow> string \<Rightarrow> exn + (PassportData \<times> G28Data)" where
  "extract_data C L passport_text g28_text =
     handle_errors C (extract_body C L passport_text g28_text)"

subsection \<open>The classification as an ordered table\<close>

text \<open>
  The same classification written as rules read from the top: a rule applies when one of
  its patterns occurs, a pattern being looked for either in the text as it is (\<open>Exact\<close>)
  or in the lower-cased text (\<open>NoCase\<close>).
\<close>

datatype pattern = Exact string | NoCase string

fun occurs :: "pattern \<Rightarrow> string \<Rightarrow> bool" where
  "occurs (Exact p) text = contains p text"
| "occurs (NoCase p) text = contains p (lower text)"

fun first_rule :: "(pattern list \<times> string) list \<Rightarrow> string \<Rightarrow> string \<Rightarrow> string" where
  "first_rule [] text dflt = dflt"
| "first_rule ((ps, msg) # rules) text dflt =
     (if list_ex (\<lambda>p. occurs p text) ps then msg else first_rule rules text dflt)"

definition rules_of_code :: "config \<Rightarrow> (pattern list \<times> string) list" where
  "rules_of_code C =
     [([Exact ''API key'', NoCase ''authentication''], authentication_message),
      ([NoCase ''quota'', NoCase ''rate limit''], quota_message),
      ([NoCase ''model''], model_message C)]"

text \<open>The table with every pattern looked for in the lower-cased text.\<close>

definition rules_all_nocase :: "config \<Rightarrow> (pattern list \<times> string) list" where
  "rules_all_nocase C =
     [([NoCase ''api key'', NoCase ''authentication''], authentication_message),
      ([NoCase ''quota'', NoCase ''rate limit''], quota_message),
      ([NoCase ''model''], model_message C)]"

subsection \<open>Libraries and settings for the examples\<close>

text \<open>
  The examples fix the remote answer and the value of \<open>json.loads\<close> at the one text they
  use (any other text is reported as undecodable there), take the reference \<open>strptime\<close>,
  and a pydantic that coerces nothing.
\<close>

definition default_config :: config where
  "default_config =
     \<lparr>GEMINI_MODEL_NAME = ''gemini-1.5-flash'', FORM_URL = ''http://localhost:8000/form'',
      HEADLESS_MODE = True\<rparr>"

definition expecting_value :: string where
  "expecting_value = ''Expecting value: line 1 column 1 (char 0)''"

definition example_libs :: "exn + string \<Rightarrow> string \<Rightarrow> pyval \<Rightarrow> libs" where
  "example_libs answer text data =
     \<lparr>generate_content = (\<lambda>name p. answer),
      json_loads = (\<lambda>s. if s = text then Inr data else Inl (JSONDecodeError expecting_value)),
      strptime = strptime_ymd,
      lax_str = (\<lambda>v. None), lax_bool = (\<lambda>v. None), lax_date = (\<lambda>v. None),
      kwargs_error = (\<lambda>cls v. cls @ ''() argument after ** must be a mapping, not '' @ type_name v)\<rparr>"

text \<open>
  A response of a hundred thousand opening brackets, on which \<open>json.loads\<close> raises
  \<open>RecursionError\<close>.
\<close>

definition deep_response :: string where
  "deep_response = replicate 100000 (CHR ''['')"

definition recursion_text :: string where
  "recursion_text =
     ''maximum recursion depth exceeded while decoding a JSON array from a unicode string''"

definition deep_libs :: libs where
  "deep_libs =
     (example_libs (Inr deep_response) [] PNone)
       \<lparr>json_loads := (\<lambda>s. if s = deep_response then Inl (OtherError recursion_text)
                            else Inl (JSONDecodeError expecting_value))\<rparr>"

text \<open>Three other responses of the examples.\<close>

definition refusal_response :: string where
  "refusal_response = ''I cannot read this document.'' @ nl"

definition bad_date_response :: string where
  "bad_date_response = ''{\"passport\": {\"surname\": \"DOE\", \"date_of_birth\": \"2030-02-30\"}}''"

definition list_date_response :: string where
  "list_date_response = ''{\"passport\": {\"date_of_birth\": [1990, 5, 17]}}''"

section \<open>TextAcquisitionPipeline (utils/ocr\_handler.py)\<close>

text \<open>
  The pipeline's collaborators are parameters: for one file, what the three functions of
  \<open>utils/pdf_handler.py\<close> return (each catches every exception itself: \<open>None\<close>, or 0 for
  the page count), what \<open>extract_text_from_image\<close> returns for an image (it too catches
  everything), and whether \<open>Image.open\<close> raises. The calls made are recorded: the second
  component of a result is the list of calls in the order they were made.
\<close>

datatype event =
    ExtractText
  | PageCount
  | ConvertPage nat
  | Recognize
  | OpenImage
  | UploadFile
  | GenerateContent
  | DeleteFile

record 'img document =
  suffix :: string
  extract_text_from_pdf :: "string option"
  get_pdf_page_count :: nat
  convert_pdf_page_to_image :: "nat \<Rightarrow> 'img option"
  extract_text_from_image :: "'img \<Rightarrow> string option"
  image_open :: "exn + 'img"

text \<open>
  The remote service of the passport path: building the model object, the upload, the
  generation (which gives a response whose \<open>text\<close> is read later, and may raise then),
  and the deletion of the upload.
\<close>

record gemini =
  configure :: "exn option"
  upload_file :: "exn option"
  generate_from_file :: "exn + (exn + string)"
  delete_file :: "exn option"
  generate_from_image :: "exn + (exn + string)"

text \<open>\<^verbatim>\<open>text and len(text.strip()) >= 50\<close>\<close>

definition sufficient :: "string option \<Rightarrow> bool" where
  "sufficient text = (case text of None \<Rightarrow> False | Some t \<Rightarrow> t \<noteq> [] \<and> 50 \<le> length (strip t))"

fun join :: "string \<Rightarrow> string list \<Rightarrow> string" where
  "join sep [] = []"
| "join sep [x] = x"
| "join sep (x # y # ys) = x @ sep @ join sep (y # ys)"

text \<open>
  The loop over \<open>range(page_count)\<close>: a page that gives no image, or no text, is skipped;
  the others give a block headed by the page's number from 1.
\<close>

fun ocr_pages :: "'img document \<Rightarrow> nat list \<Rightarrow> string list \<times> event list" where
  "ocr_pages D [] = ([], [])"
| "ocr_pages D (page_num # rest) =
     (case convert_pdf_page_to_image D page_num of
        None \<Rightarrow> (fst (ocr_pages D rest), ConvertPage page_num # snd (ocr_pages D rest))
      | Some img \<Rightarrow>
          (case extract_text_from_image D img of
             None \<Rightarrow>
               (fst (ocr_pages D rest), ConvertPage page_num # Recognize # snd (ocr_pages D rest))
           | Some page_text \<Rightarrow>
               ((if page_text \<noteq> []
                 then [''[Page '' @ str_nat (page_num + 1) @ '']'' @ nl @ page_text] else [])
                @ fst (ocr_pages D rest),
                ConvertPage page_num # Recognize # snd (ocr_pages D rest))))"

definition extract_text_from_pdf_or_image :: "'img document \<Rightarrow> string option \<times> event list" where
  "extract_text_from_pdf_or_image D =
     (let file_ext = lower (suffix D)
      in if file_ext = ''.pdf'' then
           (let text = extract_text_from_pdf D
            in if sufficient text then (text, [ExtractText])
               else
                 (let page_count = get_pdf_page_count D
                  in if page_count = 0 then (None, [ExtractText, PageCount])
                     else
                       (let page_texts = fst (ocr_pages D [0..<page_count]);
                            calls = snd (ocr_pages D [0..<page_count])
                        in (if page_texts \<noteq> [] then Some (join (nl @ nl) page_texts) else None,
                            [ExtractText, PageCount] @ calls))))
         else if file_ext \<in> set [''.jpg'', ''.jpeg'', ''.png''] then
           (case image_open D of
              Inl e \<Rightarrow> (None, [OpenImage])
            | Inr img \<Rightarrow> (extract_text_from_image D img, [OpenImage, Recognize]))
         else (None, []))"

text \<open>
  \<^verbatim>\<open>response.text.strip() if response.text else None\<close>, where reading \<open>text\<close> may
  raise.
\<close>

definition response_text :: "exn + string \<Rightarrow> exn + string option" where
  "response_text r =
     (case r of Inl e \<Rightarrow> Inl e | Inr t \<Rightarrow> Inr (if t \<noteq> [] then Some (strip t) else None))"

text \<open>
  The passport path. Everything is inside one \<open>try\<close> whose handler returns \<open>None\<close>. After
  the upload, an exception of the generation, of the deletion or of the read of the
  text leads to a second deletion, whose own exception is dropped, and is raised again.
\<close>

definition gemini_pdf_fallback :: "gemini \<Rightarrow> (exn + string option) \<times> event list" where
  "gemini_pdf_fallback G =
     (case upload_file G of
        Some e \<Rightarrow> (Inl e, [UploadFile])
      | None \<Rightarrow>
          (case generate_from_file G of
             Inl e \<Rightarrow> (Inl e, [UploadFile, GenerateContent, DeleteFile])
           | Inr response \<Rightarrow>
               (case delete_file G of
                  Some e \<Rightarrow> (Inl e, [UploadFile, GenerateContent, DeleteFile, DeleteFile])
                | None \<Rightarrow>
                    (case response_text response of
                       Inl e \<Rightarrow> (Inl e, [UploadFile, GenerateContent, DeleteFile, DeleteFile])
                     | Inr t \<Rightarrow> (Inr t, [UploadFile, GenerateContent, DeleteFile])))))"

definition extract_passport_body :: "gemini \<Rightarrow> 'img document \<Rightarrow> (exn + string option) \<times> event list" where
  "extract_passport_body G D =
     (case configure G of
        Some e \<Rightarrow> (Inl e, [])
      | None \<Rightarrow>
          (let file_ext = lower (suffix D)
           in if file_ext = ''.pdf'' then
                (let text = extract_text_from_pdf D
                 in if sufficient text then (Inr text, [ExtractText])
                    else (fst (gemini_pdf_fallback G), ExtractText # snd (gemini_pdf_fallback G)))
              else if file_ext \<in> set [''.jpg'', ''.jpeg'', ''.png''] then
                (case image_open D of
                   Inl e \<Rightarrow> (Inl e, [OpenImage])
                 | Inr img \<Rightarrow>
                     (case generate_from_image G of
                        Inl e \<Rightarrow> (Inl e, [OpenImage, GenerateContent])
                      | Inr response \<Rightarrow> (response_text response, [OpenImage, GenerateContent])))
              else (Inr None, [])))"

definition extract_passport_text_with_gemini :: "gemini \<Rightarrow> 'img document \<Rightarrow> string option \<times> event list" where
  "extract_passport_text_with_gemini G D =
     (case fst (extract_passport_body G D) of
        Inl e \<Rightarrow> (None, snd (extract_passport_body G D))
      | Inr text \<Rightarrow> (text, snd (extract_passport_body G D)))"

text \<open>Documents and a service for the examples; the embedded texts have 49 and 50
  characters once trimmed.\<close>

definition text_49 :: string where
  "text_49 = ''  [Page 1]'' @ nl @ ''PASSPORT UTOPIA ERIKSSON ANNA MARIA L898'' @ nl"

definition text_50 :: string where
  "text_50 = ''  [Page 1]'' @ nl @ ''PASSPORT UTOPIA ERIKSSON ANNA MARIA L8988'' @ nl"

definition scanned :: "string \<Rightarrow> nat document" where
  "scanned text =
     \<lparr>suffix = ''.PDF'', extract_text_from_pdf = Some text, get_pdf_page_count = 1,
      convert_pdf_page_to_image = (\<lambda>n. if n = 0 then Some 7 else None),
      extract_text_from_image = (\<lambda>i. Some ''PASSPORT UTOPIA''),
      image_open = Inl (OtherError ''cannot identify image file'')\<rparr>"

definition service :: gemini where
  "service =
     \<lparr>configure = None, upload_file = None,
      generate_from_file = Inr (Inr (''PASSPORT'' @ nl @ ''UTOPIA'' @ nl)),
      delete_file = None,
      generate_from_image = Inr (Inr ''PASSPORT'')\<rparr>"

section \<open>FormFillAdapter (automation/form\_filler.py)\<close>

text \<open>
  The browser is a state machine of an arbitrary state type: every Playwright call takes
  the state and gives the next one, with either its value or the text of the exception
  it raises (\<open>Some e\<close>, \<open>Inl e\<close>). \<open>Locator sel k\<close> is \<open>page.locator(sel)\<close>, with
  \<open>.nth(n)\<close> when \<open>k = Some n\<close>; building a locator calls nothing.
\<close>

datatype locator = Locator string "nat option"

datatype action =
    Start
  | Launch bool "nat option"
  | NewPage
  | Goto string
  | WaitForLoadState string
  | SelectOption locator string
  | Fill locator string
  | Check locator
  | Uncheck locator
  | Screenshot string
  | Pdf string
  | Close
  | Stop

record 's playwright =
  perform :: "action \<Rightarrow> 's \<Rightarrow> string option \<times> 's"
  element_count :: "locator \<Rightarrow> 's \<Rightarrow> (string + nat) \<times> 's"
  element_tag :: "locator \<Rightarrow> 's \<Rightarrow> (string + string) \<times> 's"

record fill_result =
  success :: bool
  total_filled :: nat
  total_failed :: nat
  filled_fields :: "string list"
  failed_fields :: "string list"
  screenshot_path :: "string option"
  pdf_path :: "string option"
  error :: "string option"

text \<open>
  The body of the \<open>try\<close> for one text field: \<open>True\<close> when the identifier goes to
  \<open>filled_fields\<close>, \<open>False\<close> when it goes to \<open>failed_fields\<close> (the element is missing, or
  a call raised and the handler took over).
\<close>

definition fill_field :: "'s playwright \<Rightarrow> string \<Rightarrow> string \<Rightarrow> 's \<Rightarrow> bool \<times> 's" where
  "fill_field B field_id val s =
     (let element =
            (if field_id = ''passport-given-names'' then Locator (''#'' @ field_id) (Some 0)
             else if field_id = ''passport-middle-name''
               then Locator ''#passport-given-names'' (Some 1)
             else Locator (''#'' @ field_id) None)
      in case element_count B element s of
           (Inl e, s1) \<Rightarrow> (False, s1)
         | (Inr n, s1) \<Rightarrow>
             if 0 < n then
               (case element_tag B element s1 of
                  (Inl e, s2) \<Rightarrow> (False, s2)
                | (Inr tag, s2) \<Rightarrow>
                    (case perform B (if tag = ''select'' then SelectOption element val
                                     else Fill element val) s2 of
                       (Some e, s3) \<Rightarrow> (False, s3)
                     | (None, s3) \<Rightarrow> (True, s3)))
             else (False, s1))"

definition set_checkbox :: "'s playwright \<Rightarrow> string \<Rightarrow> bool \<Rightarrow> 's \<Rightarrow> bool \<times> 's" where
  "set_checkbox B field_id checked s =
     (let element = Locator (''#'' @ field_id) None
      in case element_count B element s of
           (Inl e, s1) \<Rightarrow> (False, s1)
         | (Inr n, s1) \<Rightarrow>
             if 0 < n then
               (case perform B (if checked then Check element else Uncheck element) s1 of
                  (Some e, s2) \<Rightarrow> (False, s2)
                | (None, s2) \<Rightarrow> (True, s2))
             else (False, s1))"

text \<open>
  The two loops, over \<open>fields.items()\<close> and \<open>checkboxes.items()\<close>, carrying the two
  lists and the browser. A field whose value is the empty string is passed over.
\<close>

fun fill_fields ::
  "'s playwright \<Rightarrow> (string, string) dict \<Rightarrow> string list \<times> string list \<Rightarrow> 's
   \<Rightarrow> (string list \<times> string list) \<times> 's" where
  "fill_fields B [] both s = (both, s)"
| "fill_fields B ((field_id, val) # rest) both s =
     (if val = [] then fill_fields B rest both s
      else if fst (fill_field B field_id val s)
        then fill_fields B rest (fst both @ [field_id], snd both)
               (snd (fill_field B field_id val s))
      else fill_fields B rest (fst both, snd both @ [field_id])
             (snd (fill_field B field_id val s)))"

fun set_checkboxes ::
  "'s playwright \<Rightarrow> (string, bool) dict \<Rightarrow> string list \<times> string list \<Rightarrow> 's
   \<Rightarrow> (string list \<times> string list) \<times> 's" where
  "set_checkboxes B [] both s = (both, s)"
| "set_checkboxes B ((field_id, checked) # rest) both s =
     (if fst (set_checkbox B field_id checked s)
        then set_checkboxes B rest (fst both @ [field_id], snd both)
               (snd (set_checkbox B field_id checked s))
      else set_checkboxes B rest (fst both, snd both @ [field_id])
             (snd (set_checkbox B field_id checked s)))"

definition report :: "string list \<times> string list \<Rightarrow> string option \<Rightarrow> string option \<Rightarrow> fill_result" where
  "report both shot pdf =
     \<lparr>success = (0 < length (fst both)), total_filled = length (fst both),
      total_failed = length (snd both), filled_fields = fst both, failed_fields = snd both,
      screenshot_path = shot, pdf_path = pdf, error = None\<rparr>"

text \<open>A step that may raise, followed by the rest: the first exception ends the run.\<close>

definition step ::
  "'s playwright \<Rightarrow> action \<Rightarrow> 's \<Rightarrow> ('s \<Rightarrow> (string + 'a) \<times> 's) \<Rightarrow> (string + 'a) \<times> 's" where
  "step B a s rest = (case perform B a s of (Some e, s1) \<Rightarrow> (Inl e, s1) | (None, s1) \<Rightarrow> rest s1)"

definition fill_page ::
  "config \<Rightarrow> 's playwright \<Rightarrow> (string, string) dict \<Rightarrow> (string, bool) dict \<Rightarrow> bool \<Rightarrow> 's
   \<Rightarrow> (string + fill_result) \<times> 's" where
  "fill_page C B flds checkboxes generate_pdf s =
     step B (Goto (FORM_URL C)) s (\<lambda>s.
     step B (WaitForLoadState ''networkidle'') s (\<lambda>s.
       (let r1 = fill_fields B flds ([], []) s;
            r2 = set_checkboxes B checkboxes (fst r1) (snd r1)
        in step B (Screenshot ''uploads/form_populated.png'') (snd r2) (\<lambda>s.
             if generate_pdf
             then step B (Pdf ''uploads/form_filled.pdf'') s (\<lambda>s.
                    (Inr (report (fst r2) (Some ''uploads/form_populated.png'')
                            (Some ''uploads/form_filled.pdf'')), s))
             else (Inr (report (fst r2) (Some ''uploads/form_populated.png'') None), s)))))"

text \<open>
  The body of the \<open>try\<close> of \<open>populate_form\<close>. Headless, it runs inside
  \<open>with sync_playwright() as p\<close>: once entered, the block is left through \<open>Stop\<close>
  whether it returned or raised, and an exception of \<open>Stop\<close> replaces either. Visible,
  nothing is closed (the reference kept in \<open>_visual_sessions\<close> does not bear on the
  result).
\<close>

definition populate_body ::
  "config \<Rightarrow> 's playwright \<Rightarrow> (string, string) dict \<Rightarrow> (string, bool) dict \<Rightarrow> 's
   \<Rightarrow> (string + fill_result) \<times> 's" where
  "populate_body C B flds checkboxes s =
     (if HEADLESS_MODE C then
        step B Start s (\<lambda>s.
          (let r = step B (Launch True None) s (\<lambda>s.
                   step B NewPage s (\<lambda>s.
                     (case fill_page C B flds checkboxes True s of
                        (Inl e, s1) \<Rightarrow> (Inl e, s1)
                      | (Inr result, s1) \<Rightarrow> step B Close s1 (\<lambda>s. (Inr result, s)))))
           in case perform B Stop (snd r) of
                (Some e, s2) \<Rightarrow> (Inl e, s2)
              | (None, s2) \<Rightarrow> (fst r, s2)))
      else
        step B Start s (\<lambda>s.
        step B (Launch False (Some 50)) s (\<lambda>s.
        step B NewPage s (\<lambda>s. fill_page C B flds checkboxes False s))))"

definition failure :: "string \<Rightarrow> fill_result" where
  "failure error_msg =
     \<lparr>success = False, total_filled = 0, total_failed = 0, filled_fields = [],
      failed_fields = [], screenshot_path = None, pdf_path = None, error = Some error_msg\<rparr>"

definition populate_form ::
  "config \<Rightarrow> 's playwright \<Rightarrow> (string, string) dict \<Rightarrow> (string, bool) dict \<Rightarrow> 's
   \<Rightarrow> fill_result \<times> 's" where
  "populate_form C B flds checkboxes s =
     (case populate_body C B flds checkboxes s of
        (Inl e, s1) \<Rightarrow> (failure (''Form population failed: '' @ e), s1)
      | (Inr result, s1) \<Rightarrow> (result, s1))"

text \<open>
  The fields that are entered (their value is not empty), and what a run that returned
  normally reports.
\<close>

definition entered :: "(string, string) dict \<Rightarrow> nat" where
  "entered flds = length (filter (\<lambda>kv. snd kv \<noteq> []) flds)"

definition completed :: "bool \<Rightarrow> (string, string) dict \<Rightarrow> (string, bool) dict \<Rightarrow> fill_result \<Rightarrow> bool" where
  "completed generate_pdf flds boxes r \<longleftrightarrow>
     error r = None \<and> success r = (filled_fields r \<noteq> []) \<and> success r = (0 < total_filled r)
     \<and> total_filled r = length (filled_fields r) \<and> total_failed r = length (failed_fields r)
     \<and> total_filled r + total_failed r = entered flds + length boxes
     \<and> screenshot_path r = Some ''uploads/form_populated.png''
     \<and> pdf_path r = (if generate_pdf then Some ''uploads/form_filled.pdf'' else None)"

text \<open>
  A browser for the examples: its state is the list of the actions performed so far,
  every element exists once and is an \<open>input\<close>, and the actions that raise, with their
  texts, are given.
\<close>

definition recording :: "(action \<Rightarrow> string option) \<Rightarrow> action list playwright" where
  "recording raises =
     \<lparr>perform = (\<lambda>a s. (raises a, s @ [a])),
      element_count = (\<lambda>l s. (Inr 1, s)),
      element_tag = (\<lambda>l s. (Inr ''input'', s))\<rparr>"

definition two_fields :: "(string, string) dict" where
  "two_fields = [(''passport-surname'', ''DOE''), (''passport-sex'', []), (''passport-number'', ''L898'')]"

definition number_times_out :: "action \<Rightarrow> string option" where
  "number_times_out a =
     (if a = Fill (Locator ''#passport-number'' None) ''L898''
      then Some ''Timeout 30000ms exceeded'' else None)"

definition screenshot_fails :: "action \<Rightarrow> string option" where
  "screenshot_fails a =
     (if a = Screenshot ''uploads/form_populated.png''
      then Some ''No such file or directory: uploads'' else None)"

text \<open>
  The element that \<open>_fill_page\<close> addresses for a field identifier (the given names and the
  middle name share one identifier on the form), and the two loops run one after the
  other from empty lists.
\<close>

definition field_element :: "string \<Rightarrow> locator" where
  "field_element field_id =
     (if field_id = ''passport-given-names'' then Locator (''#'' @ field_id) (Some 0)
      else if field_id = ''passport-middle-name'' then Locator ''#passport-given-names'' (Some 1)
      else Locator (''#'' @ field_id) None)"

abbreviation loops ::
  "'s playwright \<Rightarrow> (string, string) dict \<Rightarrow> (string, bool) dict \<Rightarrow> 's
   \<Rightarrow> (string list \<times> string list) \<times> 's" where
  "loops B flds boxes s \<equiv>
     set_checkboxes B boxes (fst (fill_fields B flds ([], []) s))
       (snd (fill_fields B flds ([], []) s))"

section \<open>Properties of the FieldMapper\<close>

text \<open>
  No identifier is written twice, so no store replaces an earlier one: the result is the
  three blocks one after the other.
\<close>

lemma map_passport_nil: "map_passport p [] = passport_entries p"
  by (simp add: map_passport_def passport_entries_def setitem_def Let_def)

lemma map_attorney_after_passport:
  "map_attorney a (passport_entries p) = passport_entries p @ attorney_entries a"
  by (simp add: map_attorney_def passport_entries_def attorney_entries_def setitem_def Let_def)

lemma map_eligibility_after_passport:
  "map_eligibility e (passport_entries p) = passport_entries p @ eligibility_entries e"
  by (simp add: map_eligibility_def passport_entries_def eligibility_entries_def setitem_def
      Let_def)

lemma map_eligibility_after_attorney:
  "map_eligibility e (passport_entries p @ attorney_entries a) =
     passport_entries p @ attorney_entries a @ eligibility_entries e"
  by (simp add: map_eligibility_def passport_entries_def attorney_entries_def
      eligibility_entries_def setitem_def Let_def)

lemma map_to_form_fields_blocks:
  "map_to_form_fields p g =
     passport_entries p
     @ (case attorney g of None \<Rightarrow> [] | Some a \<Rightarrow> attorney_entries a)
     @ (case eligibility g of None \<Rightarrow> [] | Some e \<Rightarrow> eligibility_entries e)"
  by (simp add: map_to_form_fields_def map_passport_nil map_attorney_after_passport
      map_eligibility_after_passport map_eligibility_after_attorney split: option.split)

lemma map_of_passport_block:
  "k \<in> set passport_ids \<Longrightarrow>
     map_of (map_to_form_fields p g) k = map_of (passport_entries p) k"
  by (auto simp add: map_to_form_fields_blocks passport_ids_def passport_entries_def)

lemma keys_entries:
  "keys (passport_entries p) = passport_ids"
  "keys (attorney_entries a) = attorney_ids"
  "keys (eligibility_entries e) = eligibility_ids"
  by (simp_all add: keys_def passport_entries_def passport_ids_def attorney_entries_def
      attorney_ids_def eligibility_entries_def eligibility_ids_def)

subsection \<open>The decimal rendering of a date\<close>

lemma digit_char_simps:
  "digit_char 0 = CHR ''0''" "digit_char 1 = CHR ''1''" "digit_char 2 = CHR ''2''"
  "digit_char 3 = CHR ''3''" "digit_char 4 = CHR ''4''" "digit_char 5 = CHR ''5''"
  "digit_char 6 = CHR ''6''" "digit_char 7 = CHR ''7''" "digit_char 8 = CHR ''8''"
  "digit_char 9 = CHR ''9''" "digit_char (Suc 0) = CHR ''1''"
  by (simp_all add: digit_char_def)

lemma str_nat_digit: "n < 10 \<Longrightarrow> str_nat n = [digit_char n]"
  by (subst str_nat.simps) simp

lemma str_nat_step: "10 \<le> n \<Longrightarrow> str_nat n = str_nat (n div 10) @ [digit_char (n mod 10)]"
  by (subst str_nat.simps) simp

lemma str_nat_2: "10 \<le> n \<Longrightarrow> n < 100 \<Longrightarrow>
    str_nat n = [digit_char (n div 10), digit_char (n mod 10)]"
  by (simp add: str_nat_step str_nat_digit)

lemma str_nat_3: "100 \<le> n \<Longrightarrow> n < 1000 \<Longrightarrow>
    str_nat n = [digit_char (n div 100), digit_char (n div 10 mod 10), digit_char (n mod 10)]"
  by (simp add: str_nat_step [of n] str_nat_2 div_mult2_eq [symmetric])

lemma str_nat_4: "1000 \<le> n \<Longrightarrow> n < 10000 \<Longrightarrow>
    str_nat n = [digit_char (n div 1000), digit_char (n div 100 mod 10),
                 digit_char (n div 10 mod 10), digit_char (n mod 10)]"
  by (simp add: str_nat_step [of n] str_nat_3 div_mult2_eq [symmetric])

lemma replicate_zeros:
  "replicate (Suc 0) c = [c]" "replicate 2 c = [c, c]" "replicate 3 c = [c, c, c]"
  by (simp_all add: numeral_2_eq_2 numeral_3_eq_3)

lemma zero_pad_2:
  assumes "n < 100"
  shows "zero_pad 2 n = [digit_char (n div 10), digit_char (n mod 10)]"
proof (cases "n < 10")
  case True
  then show ?thesis by (simp add: zero_pad_def str_nat_digit digit_char_simps)
next
  case False
  with assms show ?thesis by (simp add: zero_pad_def str_nat_2)
qed

lemma zero_pad_4:
  assumes "n < 10000"
  shows "zero_pad 4 n = [digit_char (n div 1000), digit_char (n div 100 mod 10),
                         digit_char (n div 10 mod 10), digit_char (n mod 10)]"
proof -
  consider "n < 10" | "10 \<le> n" "n < 100" | "100 \<le> n" "n < 1000" | "1000 \<le> n"
    by linarith
  then show ?thesis
  proof cases
    case 1
    then show ?thesis by (simp add: zero_pad_def str_nat_digit digit_char_simps replicate_zeros)
  next
    case 2
    then show ?thesis by (simp add: zero_pad_def str_nat_2 digit_char_simps replicate_zeros)
  next
    case 3
    then show ?thesis by (simp add: zero_pad_def str_nat_3 digit_char_simps replicate_zeros)
  next
    case 4
    with assms show ?thesis by (simp add: zero_pad_def str_nat_4)
  qed
qed

lemma isoformat_digits:
  assumes "year d < 10000" "month d < 100" "day d < 100"
  shows "isoformat d =
     [digit_char (year d div 1000), digit_char (year d div 100 mod 10),
      digit_char (year d div 10 mod 10), digit_char (year d mod 10), CHR ''-'',
      digit_char (month d div 10), digit_char (month d mod 10), CHR ''-'',
      digit_char (day d div 10), digit_char (day d mod 10)]"
  using assms by (simp add: isoformat_def zero_pad_2 zero_pad_4)

lemma isoformat_example: "isoformat \<lparr>year = 2030, month = 1, day = 15\<rparr> = ''2030-01-15''"
  by (simp add: isoformat_digits digit_char_simps)

subsection \<open>A rendered date parses back\<close>

lemma digit_char_props:
  assumes "k < 10"
  shows "is_digit (digit_char k)" and "digit_val (digit_char k) = k"
proof -
  from assms have "k \<in> {0, 1, 2, 3, 4, 5, 6, 7, 8, 9}"
    by simp arith
  then show "is_digit (digit_char k)" and "digit_val (digit_char k) = k"
    by (elim insertE emptyE; simp add: digit_char_simps is_digit_def digit_val_def)+
qed

lemma year_digits:
  assumes "y < 10000"
  shows "list_all is_digit [digit_char (y div 1000), digit_char (y div 100 mod 10),
                            digit_char (y div 10 mod 10), digit_char (y mod 10)]"
    and "int_of_digits [digit_char (y div 1000), digit_char (y div 100 mod 10),
                        digit_char (y div 10 mod 10), digit_char (y mod 10)] = y"
proof -
  from assms have a: "y div 1000 < 10" by simp
  show "list_all is_digit [digit_char (y div 1000), digit_char (y div 100 mod 10),
                            digit_char (y div 10 mod 10), digit_char (y mod 10)]"
    using a by (simp add: digit_char_props)
  have e1: "10 * (y div 1000) + y div 100 mod 10 = y div 100"
    using div_mult_mod_eq [of "y div 100" 10] by (simp add: div_mult2_eq [symmetric] ac_simps)
  have e2: "10 * (y div 100) + y div 10 mod 10 = y div 10"
    using div_mult_mod_eq [of "y div 10" 10] by (simp add: div_mult2_eq [symmetric] ac_simps)
  have e3: "10 * (y div 10) + y mod 10 = y"
    by simp
  have "10 * (10 * (10 * (y div 1000) + y div 100 mod 10) + y div 10 mod 10) + y mod 10 = y"
    by (simp only: e1 e2 e3)
  then show "int_of_digits [digit_char (y div 1000), digit_char (y div 100 mod 10),
                        digit_char (y div 10 mod 10), digit_char (y mod 10)] = y"
    using a by (simp add: int_of_digits_def digit_char_props)
qed

lemma month_digits:
  assumes "1 \<le> m" "m \<le> 12"
  shows "month_two [digit_char (m div 10), digit_char (m mod 10)]"
    and "int_of_digits [digit_char (m div 10), digit_char (m mod 10)] = m"
proof -
  from assms have "m \<in> {1, 2, 3, 4, 5, 6, 7, 8, 9, 10, 11, 12}"
    by simp arith
  then show "month_two [digit_char (m div 10), digit_char (m mod 10)]"
    by (elim insertE emptyE; simp add: digit_char_simps)
  from assms have "m div 10 < 10" "m mod 10 < 10" by simp_all
  then show "int_of_digits [digit_char (m div 10), digit_char (m mod 10)] = m"
    by (simp add: int_of_digits_def digit_char_props)
qed

lemma day_digits:
  assumes "1 \<le> d" "d \<le> 31"
  shows "day_two [digit_char (d div 10), digit_char (d mod 10)]"
    and "int_of_digits [digit_char (d div 10), digit_char (d mod 10)] = d"
proof -
  from assms have "d \<in> {1, 2, 3, 4, 5, 6, 7, 8, 9, 10, 11, 12, 13, 14, 15, 16, 17, 18, 19, 20,
                          21, 22, 23, 24, 25, 26, 27, 28, 29, 30, 31}"
    by simp arith
  then show "day_two [digit_char (d div 10), digit_char (d mod 10)]"
    by (elim insertE emptyE; simp add: digit_char_simps is_digit_def)
  from assms have "d div 10 < 10" "d mod 10 < 10" by simp_all
  then show "int_of_digits [digit_char (d div 10), digit_char (d mod 10)] = d"
    by (simp add: int_of_digits_def digit_char_props)
qed

lemma days_in_month_le: "days_in_month y m \<le> 31"
  by (simp add: days_in_month_def)

lemma strptime_isoformat:
  assumes "make_date y m d = Some dt"
  shows "strptime_ymd (isoformat dt) = Some dt"
proof -
  from assms have b: "1 \<le> y" "y \<le> 9999" "1 \<le> m" "m \<le> 12" "1 \<le> d" "d \<le> days_in_month y m"
    and dt: "dt = \<lparr>year = y, month = m, day = d\<rparr>"
    by (auto simp add: make_date_def split: if_splits)
  from b(6) days_in_month_le [of y m] have d31: "d \<le> 31" by simp
  from b(2) have y4: "y < 10000" by simp
  have iso: "isoformat dt =
     [digit_char (y div 1000), digit_char (y div 100 mod 10),
      digit_char (y div 10 mod 10), digit_char (y mod 10), CHR ''-'',
      digit_char (m div 10), digit_char (m mod 10), CHR ''-'',
      digit_char (d div 10), digit_char (d mod 10)]"
    using isoformat_digits [of dt] y4 b(4) d31 by (simp add: dt)
  have mm: "match_month [digit_char (m div 10), digit_char (m mod 10), CHR ''-'',
                         digit_char (d div 10), digit_char (d mod 10)]
            = Some (m, [digit_char (d div 10), digit_char (d mod 10)])"
    using month_digits [OF b(3,4)] by (simp add: match_month_def)
  have md: "match_day [digit_char (d div 10), digit_char (d mod 10)] = Some (d, [])"
    using day_digits [OF b(5) d31] by (simp add: match_day_def)
  show ?thesis
    using year_digits [OF y4] assms
    by (simp add: iso strptime_ymd_def mm md)
qed

subsection \<open>The maps\<close>

text \<open>
  C5. For every passport record and every G-28 record, whatever fields and groups are
  \<open>None\<close>, \<open>map_to_form_fields\<close> and \<open>get_checkbox_fields\<close> each produce a map (neither
  has a raising step): the field map holds the eleven passport identifiers, then the
  eleven attorney identifiers when the attorney group is present, then the three
  eligibility identifiers when that group is present; a field that is \<open>None\<close> is written
  as the empty string; with both records empty every value is the empty string, and the
  checkbox map is empty when the eligibility boolean (or its group) is absent.
\<close>

theorem field_mapper_total:
  "map_to_form_fields p g =
     passport_entries p
     @ (case attorney g of None \<Rightarrow> [] | Some a \<Rightarrow> attorney_entries a)
     @ (case eligibility g of None \<Rightarrow> [] | Some e \<Rightarrow> eligibility_entries e)
   \<and> keys (map_to_form_fields p g) =
     passport_ids
     @ (case attorney g of None \<Rightarrow> [] | Some a \<Rightarrow> attorney_ids)
     @ (case eligibility g of None \<Rightarrow> [] | Some e \<Rightarrow> eligibility_ids)
   \<and> get_value None = [] \<and> date_value None = []
   \<and> map_to_form_fields empty_passport empty_g28 = map (\<lambda>k. (k, [])) passport_ids
   \<and> map_to_form_fields empty_passport
        \<lparr>attorney = Some empty_attorney, eligibility = Some empty_eligibility, client = c\<rparr>
       = map (\<lambda>k. (k, [])) (passport_ids @ attorney_ids @ eligibility_ids)
   \<and> get_checkbox_fields empty_g28 = []
   \<and> get_checkbox_fields (g\<lparr>eligibility := None\<rparr>) = []
   \<and> get_checkbox_fields (g\<lparr>eligibility := Some (e\<lparr>is_not_subject_to_orders := None\<rparr>)\<rparr>) = []"
proof -
  have blocks: "map_to_form_fields p g =
     passport_entries p
     @ (case attorney g of None \<Rightarrow> [] | Some a \<Rightarrow> attorney_entries a)
     @ (case eligibility g of None \<Rightarrow> [] | Some e \<Rightarrow> eligibility_entries e)" for p g
    by (rule map_to_form_fields_blocks)
  have ks: "keys (map_to_form_fields p g) =
     passport_ids
     @ (case attorney g of None \<Rightarrow> [] | Some a \<Rightarrow> attorney_ids)
     @ (case eligibility g of None \<Rightarrow> [] | Some e \<Rightarrow> eligibility_ids)"
    using keys_entries by (simp add: blocks keys_def split: option.split)
  have e1: "map_to_form_fields empty_passport empty_g28 = map (\<lambda>k. (k, [])) passport_ids"
    by (simp add: blocks empty_g28_def empty_passport_def passport_entries_def passport_ids_def
        get_value_def date_value_def)
  have e2: "map_to_form_fields empty_passport
        \<lparr>attorney = Some empty_attorney, eligibility = Some empty_eligibility, client = c\<rparr>
       = map (\<lambda>k. (k, [])) (passport_ids @ attorney_ids @ eligibility_ids)"
    by (simp add: blocks empty_passport_def empty_attorney_def empty_eligibility_def
        passport_entries_def attorney_entries_def eligibility_entries_def passport_ids_def
        attorney_ids_def eligibility_ids_def get_value_def date_value_def)
  have c: "get_checkbox_fields empty_g28 = []"
    "get_checkbox_fields (g\<lparr>eligibility := None\<rparr>) = []"
    "get_checkbox_fields (g\<lparr>eligibility := Some (e\<lparr>is_not_subject_to_orders := None\<rparr>)\<rparr>) = []"
    by (simp_all add: get_checkbox_fields_def empty_g28_def)
  show ?thesis
    using blocks [of p g] ks e1 e2 c by (simp add: get_value_def date_value_def)
qed

text \<open>
  C6. For every passport record, each of the three date identifiers holds the ISO
  calendar form \<open>YYYY-MM-DD\<close> of its date (the date 2030-01-15 gives the string
  \<open>2030-01-15\<close>), and the empty string when the date is absent. The form is four
  digits of the year, two of the month and two of the day between hyphens, and for a
  date of the calendar it is read back as that date by the format \<open>%Y-%m-%d\<close>.
\<close>

theorem date_rendering:
  "map_of (map_to_form_fields p g) ''passport-dob'' =
     Some (case date_of_birth p of None \<Rightarrow> [] | Some d \<Rightarrow> isoformat d)
   \<and> map_of (map_to_form_fields p g) ''passport-issue-date'' =
     Some (case issue_date p of None \<Rightarrow> [] | Some d \<Rightarrow> isoformat d)
   \<and> map_of (map_to_form_fields p g) ''passport-expiry-date'' =
     Some (case expiry_date p of None \<Rightarrow> [] | Some d \<Rightarrow> isoformat d)
   \<and> isoformat \<lparr>year = 2030, month = 1, day = 15\<rparr> = ''2030-01-15''
   \<and> (year d < 10000 \<and> month d < 100 \<and> day d < 100 \<longrightarrow>
      isoformat d =
        [digit_char (year d div 1000), digit_char (year d div 100 mod 10),
         digit_char (year d div 10 mod 10), digit_char (year d mod 10), CHR ''-'',
         digit_char (month d div 10), digit_char (month d mod 10), CHR ''-'',
         digit_char (day d div 10), digit_char (day d mod 10)])
   \<and> (make_date y m n = Some d \<longrightarrow> strptime_ymd (isoformat d) = Some d)"
proof -
  have "map_of (map_to_form_fields p g) ''passport-dob'' = Some (date_value (date_of_birth p))"
    "map_of (map_to_form_fields p g) ''passport-issue-date'' = Some (date_value (issue_date p))"
    "map_of (map_to_form_fields p g) ''passport-expiry-date'' = Some (date_value (expiry_date p))"
    by (simp_all add: map_of_passport_block passport_ids_def passport_entries_def)
  then show ?thesis
    using isoformat_example isoformat_digits [of d] strptime_isoformat [of y m n d]
    by (simp add: date_value_def)
qed

theorem date_rendering_witness:
  "map_of (map_to_form_fields
      (empty_passport\<lparr>date_of_birth := Some \<lparr>year = 1987, month = 11, day = 3\<rparr>,
                      expiry_date := Some \<lparr>year = 2030, month = 1, day = 15\<rparr>\<rparr>) empty_g28)
      ''passport-dob'' = Some ''1987-11-03''
   \<and> map_of (map_to_form_fields
      (empty_passport\<lparr>date_of_birth := Some \<lparr>year = 1987, month = 11, day = 3\<rparr>,
                      expiry_date := Some \<lparr>year = 2030, month = 1, day = 15\<rparr>\<rparr>) empty_g28)
      ''passport-issue-date'' = Some []
   \<and> map_of (map_to_form_fields
      (empty_passport\<lparr>date_of_birth := Some \<lparr>year = 1987, month = 11, day = 3\<rparr>,
                      expiry_date := Some \<lparr>year = 2030, month = 1, day = 15\<rparr>\<rparr>) empty_g28)
      ''passport-expiry-date'' = Some ''2030-01-15''"
  using date_rendering [of "empty_passport\<lparr>date_of_birth := Some \<lparr>year = 1987, month = 11, day = 3\<rparr>,
                      expiry_date := Some \<lparr>year = 2030, month = 1, day = 15\<rparr>\<rparr>" empty_g28
      "\<lparr>year = 1987, month = 11, day = 3\<rparr>"]
  by (simp add: empty_passport_def digit_char_simps)

text \<open>
  C7. For every passport record the field map holds both given-name identifiers: the
  first holds \<open>given_names\<close>, the second (virtual) one holds \<open>middle_names\<close>, and the
  second is present, with the empty string, when \<open>middle_names\<close> is absent.
\<close>

theorem given_name_split:
  "map_of (map_to_form_fields p g) ''passport-given-names'' = Some (get_value (given_names p))
   \<and> map_of (map_to_form_fields p g) ''passport-middle-name'' = Some (get_value (middle_names p))
   \<and> map_of (map_to_form_fields (p\<lparr>given_names := Some ''John'', middle_names := Some ''Q''\<rparr>) g)
        ''passport-given-names'' = Some ''John''
   \<and> map_of (map_to_form_fields (p\<lparr>given_names := Some ''John'', middle_names := Some ''Q''\<rparr>) g)
        ''passport-middle-name'' = Some ''Q''
   \<and> map_of (map_to_form_fields (p\<lparr>middle_names := None\<rparr>) g) ''passport-middle-name'' = Some []
   \<and> ''passport-given-names'' \<in> set (keys (map_to_form_fields p g))
   \<and> ''passport-middle-name'' \<in> set (keys (map_to_form_fields p g))"
proof -
  have l: "map_of (map_to_form_fields p g) ''passport-given-names'' = Some (get_value (given_names p))"
    "map_of (map_to_form_fields p g) ''passport-middle-name'' = Some (get_value (middle_names p))"
    for p g
    by (simp_all add: map_of_passport_block passport_ids_def passport_entries_def)
  have k: "''passport-given-names'' \<in> set (keys (map_to_form_fields p g))"
    "''passport-middle-name'' \<in> set (keys (map_to_form_fields p g))"
    by (simp_all add: map_to_form_fields_blocks keys_def passport_entries_def)
  show ?thesis
    using k by (simp add: l get_value_def)
qed

text \<open>
  C9. For every G-28 record \<open>get_checkbox_fields\<close> produces no entry when the
  eligibility group is absent or its \<open>is_not_subject_to_orders\<close> is \<open>None\<close>, exactly one
  entry mapped to \<open>False\<close> when it is \<open>False\<close>, and exactly one entry mapped to \<open>True\<close>
  when it is \<open>True\<close>.
\<close>

theorem checkbox_null_vs_false:
  "get_checkbox_fields (g\<lparr>eligibility := None\<rparr>) = []
   \<and> get_checkbox_fields (g\<lparr>eligibility := Some (e\<lparr>is_not_subject_to_orders := None\<rparr>)\<rparr>) = []
   \<and> get_checkbox_fields (g\<lparr>eligibility := Some (e\<lparr>is_not_subject_to_orders := Some False\<rparr>)\<rparr>)
       = [(''not-subject'', False)]
   \<and> get_checkbox_fields (g\<lparr>eligibility := Some (e\<lparr>is_not_subject_to_orders := Some True\<rparr>)\<rparr>)
       = [(''not-subject'', True)]
   \<and> length (get_checkbox_fields g) =
       (case eligibility g of None \<Rightarrow> 0
        | Some e \<Rightarrow> (case is_not_subject_to_orders e of None \<Rightarrow> 0 | Some b \<Rightarrow> 1))
   \<and> map_of (get_checkbox_fields g) ''not-subject'' =
       (case eligibility g of None \<Rightarrow> None | Some e \<Rightarrow> is_not_subject_to_orders e)"
  by (simp add: get_checkbox_fields_def setitem_def split: option.split)

section \<open>Properties of the StructuredExtractor\<close>

subsection \<open>Substrings\<close>

lemma startswith_iff: "startswith s p \<longleftrightarrow> (\<exists>b. s = p @ b)"
proof
  assume "startswith s p"
  then have "s = p @ drop (length p) s"
    by (metis append_take_drop_id startswith_def)
  then show "\<exists>b. s = p @ b" ..
next
  assume "\<exists>b. s = p @ b"
  then show "startswith s p" by (auto simp add: startswith_def)
qed

lemma contains_iff: "contains sub s \<longleftrightarrow> (\<exists>a b. s = a @ sub @ b)"
proof (induction s)
  case Nil
  then show ?case by auto
next
  case (Cons c cs)
  show ?case
  proof
    assume "contains sub (c # cs)"
    then consider "startswith (c # cs) sub" | "contains sub cs" by auto
    then show "\<exists>a b. c # cs = a @ sub @ b"
    proof cases
      case 1
      then obtain b where "c # cs = sub @ b" by (auto simp add: startswith_iff)
      then have "c # cs = [] @ sub @ b" by simp
      then show ?thesis by blast
    next
      case 2
      with Cons.IH obtain a b where "cs = a @ sub @ b" by auto
      then have "c # cs = (c # a) @ sub @ b" by simp
      then show ?thesis by blast
    qed
  next
    assume "\<exists>a b. c # cs = a @ sub @ b"
    then obtain a b where ab: "c # cs = a @ sub @ b" by blast
    show "contains sub (c # cs)"
    proof (cases a)
      case Nil
      with ab have "startswith (c # cs) sub" by (auto simp add: startswith_iff)
      then show ?thesis by simp
    next
      case (Cons x xs)
      with ab have "cs = xs @ sub @ b" by simp
      with Cons.IH have "contains sub cs" by blast
      then show ?thesis by simp
    qed
  qed
qed

lemma contains_middle: "contains sub (a @ sub @ b)"
  by (auto simp add: contains_iff)

lemma contains_suffix: "contains sub (a @ sub)"
  using contains_middle [of sub a "[]"] by simp

lemma contains_single: "contains [c] s \<longleftrightarrow> c \<in> set s"
  by (induction s) (auto simp add: startswith_def)

lemma common_fragment_iff:
  "common_fragment a b \<longleftrightarrow> (\<exists>f. f \<noteq> [] \<and> contains f a \<and> contains f b)"
proof
  assume "common_fragment a b"
  then obtain c where "c \<in> set a" "contains [c] b"
    by (auto simp add: common_fragment_def list_ex_iff)
  then have "[c] \<noteq> [] \<and> contains [c] a \<and> contains [c] b"
    by (simp add: contains_single)
  then show "\<exists>f. f \<noteq> [] \<and> contains f a \<and> contains f b" by blast
next
  assume "\<exists>f. f \<noteq> [] \<and> contains f a \<and> contains f b"
  then obtain f where f: "f \<noteq> []" "contains f a" "contains f b" by blast
  then obtain c fs where "f = c # fs" by (cases f) auto
  with f have "c \<in> set a" "c \<in> set b" by (auto simp add: contains_iff)
  then show "common_fragment a b"
    by (auto simp add: common_fragment_def list_ex_iff contains_single)
qed

lemma handle_errors_value_error: "handle_errors C r = Inl e \<Longrightarrow> is_value_error e"
  by (auto simp add: handle_errors_def split: sum.splits exn.splits)

lemma classify_table:
  "classify C error_msg = first_rule (rules_of_code C) error_msg (generic_message error_msg)"
  by (simp add: classify_def rules_of_code_def)

subsection \<open>The two handlers\<close>

lemma extract_data_remote_error:
  assumes "generate_content L (GEMINI_MODEL_NAME C) (prompt passport_text g28_text) = Inl e"
  shows "extract_data C L passport_text g28_text = handle_errors C (Inl e)"
  using assms by (simp add: extract_data_def extract_body_def)

lemma extract_data_decoded:
  assumes "generate_content L (GEMINI_MODEL_NAME C) (prompt passport_text g28_text) = Inr text"
    and "json_loads L (strip_fences text) = Inr data"
  shows "extract_data C L passport_text g28_text = handle_errors C (parse_records L data)"
  using assms by (simp add: extract_data_def extract_body_def)

lemma lower_append: "lower (a @ b) = lower a @ lower b"
  by (simp add: lower_def)

lemma lower_simps:
  "lower [] = []"
  "lower (c # cs) = lower_char c # lower cs"
  by (simp_all add: lower_def)

lemmas eval_text = startswith_def lower_simps lower_char_def char_of_def bit_Suc_0_iff

lemma contains_lower:
  assumes "contains p msg"
  shows "contains (lower p) (lower msg)"
proof -
  from assms obtain a b where "msg = a @ p @ b" by (auto simp add: contains_iff)
  then have "lower msg = lower a @ lower p @ lower b" by (simp add: lower_append)
  then show ?thesis by (auto simp add: contains_iff)
qed

lemma api_key_any_case:
  assumes "contains ''API key'' msg"
  shows "contains ''api key'' (lower msg)"
  using contains_lower [OF assms] by (simp add: eval_text)

lemma tables_agree:
  assumes "contains ''API key'' msg \<or> \<not> contains ''api key'' (lower msg)"
  shows "first_rule (rules_of_code C) msg dflt = first_rule (rules_all_nocase C) msg dflt"
  using assms api_key_any_case [of msg]
  by (auto simp add: rules_of_code_def rules_all_nocase_def simp del: contains.simps)

text \<open>
  What the handler \<open>except Exception\<close> makes of an exception of the remote call that is
  no \<open>ValueError\<close>: the message the ordered rules give for the error text. It is the
  classification with every pattern looked for in the lower-cased text, except for a
  text that contains \<open>api key\<close> only in another spelling than \<open>API key\<close>.
\<close>

lemma remote_failure_classification:
  assumes "generate_content L (GEMINI_MODEL_NAME C) (prompt passport_text g28_text)
           = Inl (OtherError error_msg)"
  shows "extract_data C L passport_text g28_text =
           Inl (ValueError (first_rule (rules_of_code C) error_msg (generic_message error_msg)))
         \<and> (contains ''API key'' error_msg \<or> \<not> contains ''api key'' (lower error_msg) \<longrightarrow>
            extract_data C L passport_text g28_text =
              Inl (ValueError
                (first_rule (rules_all_nocase C) error_msg (generic_message error_msg))))"
  using assms tables_agree [of error_msg C "generic_message error_msg"]
  by (auto simp add: extract_data_remote_error handle_errors_def classify_table
      simp del: contains.simps)

lemma quota_example:
  "extract_data default_config
     (example_libs (Inl (OtherError ''429 Resource exhausted: Quota exceeded'')) [] PNone)
     ''P<UTO'' ''Form G-28''
   = Inl (ValueError ''Gemini API quota exceeded or rate limit reached. Please try again later.'')"
  by (simp add: extract_data_def extract_body_def example_libs_def handle_errors_def
      classify_def quota_message_def eval_text)

text \<open>
  C4. The claim: for an exception of the remote call that is no \<open>ValueError\<close>, a text
  that contains \<open>api key\<close> in any letter case gives the authentication message. The
  code at the error text \<open>Invalid api key\<close>: of the five substring tests, the one for
  \<open>API key\<close> is the only one made on the text as it is and not on the lower-cased
  text, so no test applies and \<open>extract_data\<close> raises the generic message, where the
  classification of the claim gives the authentication message.
\<close>

theorem api_key_case_failing_input:
  "extract_data default_config (example_libs (Inl (OtherError ''Invalid api key'')) [] PNone)
     ''P<UTO'' ''Form G-28''
   = Inl (ValueError
       ''LLM extraction error: Invalid api key. Please check your API key and model configuration.'')
   \<and> first_rule (rules_all_nocase default_config) ''Invalid api key''
        (generic_message ''Invalid api key'')
     = ''Gemini API authentication failed. Please verify your GEMINI_API_KEY in .env file.''
   \<and> contains ''api key'' (lower ''Invalid api key'')
   \<and> \<not> contains ''API key'' ''Invalid api key''"
  by (simp add: extract_data_def extract_body_def example_libs_def handle_errors_def
      classify_def rules_all_nocase_def generic_message_def authentication_message_def eval_text)

lemma json_loads_other_exception:
  assumes "generate_content L (GEMINI_MODEL_NAME C) (prompt passport_text g28_text) = Inr text"
    and "json_loads L (strip_fences text) = Inl e"
    and "\<forall>d. e \<noteq> JSONDecodeError d"
  shows "extract_data C L passport_text g28_text = handle_errors C (Inl e)"
  using assms by (cases e) (simp_all add: extract_data_def extract_body_def)

text \<open>
  C3 (as amended). For every remote response on whose text, the fence removed,
  \<open>json.loads\<close> raises \<open>JSONDecodeError\<close>, \<open>extract_data\<close> raises a \<open>ValueError\<close> whose
  message is the sentence \<open>Gemini API returned invalid JSON format. JSON parsing error:\<close>
  followed by the decoder's diagnostic: it contains the wording \<open>invalid JSON\<close> and the
  diagnostic, and nothing of the response text is put into it. The handler is for
  \<open>JSONDecodeError\<close> alone: when \<open>json.loads\<close> raises a plain \<open>ValueError\<close> (an integer
  literal too long to convert), it is raised again as it is, and when it raises another
  exception (\<open>RecursionError\<close> on deeply nested brackets), \<open>extract_data\<close> raises a
  \<open>ValueError\<close> with the message that the classification of remote failures gives for
  the exception's text.
\<close>

theorem invalid_json_failure:
  assumes "generate_content L (GEMINI_MODEL_NAME C) (prompt passport_text g28_text) = Inr text"
  shows "(\<forall>json_err. json_loads L (strip_fences text) = Inl (JSONDecodeError json_err) \<longrightarrow>
            extract_data C L passport_text g28_text =
              Inl (ValueError
                (''Gemini API returned invalid JSON format. JSON parsing error: '' @ json_err))
            \<and> contains ''invalid JSON'' (invalid_json_message json_err)
            \<and> contains json_err (invalid_json_message json_err))
         \<and> (\<forall>m. json_loads L (strip_fences text) = Inl (ValueError m) \<longrightarrow>
            extract_data C L passport_text g28_text = Inl (ValueError m))
         \<and> (\<forall>m. json_loads L (strip_fences text) = Inl (OtherError m) \<longrightarrow>
            extract_data C L passport_text g28_text = Inl (ValueError (classify C m)))"
proof (intro conjI allI impI)
  fix json_err
  assume j: "json_loads L (strip_fences text) = Inl (JSONDecodeError json_err)"
  show "extract_data C L passport_text g28_text =
          Inl (ValueError
            (''Gemini API returned invalid JSON format. JSON parsing error: '' @ json_err))"
    using assms j
    by (simp add: extract_data_def extract_body_def handle_errors_def invalid_json_message_def)
  show "contains ''invalid JSON'' (invalid_json_message json_err)"
    using contains_middle [of "''invalid JSON''" "''Gemini API returned ''"
        "'' format. JSON parsing error: '' @ json_err"]
    by (simp add: invalid_json_message_def)
  show "contains json_err (invalid_json_message json_err)"
    unfolding invalid_json_message_def by (rule contains_suffix)
next
  fix m
  assume "json_loads L (strip_fences text) = Inl (ValueError m)"
  with assms show "extract_data C L passport_text g28_text = Inl (ValueError m)"
    by (simp add: extract_data_def extract_body_def handle_errors_def)
next
  fix m
  assume "json_loads L (strip_fences text) = Inl (OtherError m)"
  with assms show "extract_data C L passport_text g28_text = Inl (ValueError (classify C m))"
    by (simp add: extract_data_def extract_body_def handle_errors_def)
qed

lemma strip_fences_plain: "strip_fences ''@@@'' = ''@@@''"
  by (simp add: strip_fences_def strip_def is_space_def startswith_def endswith_def fence_def)

lemma strip_fences_refusal:
  "strip_fences refusal_response = ''I cannot read this document.''"
  by (simp add: refusal_response_def strip_fences_def strip_def is_space_def startswith_def
      endswith_def fence_def nl_def)

theorem invalid_json_failure_witness:
  "extract_data default_config
     (example_libs (Inr refusal_response) ''{}'' (PDict []))
     ''P<UTO'' ''Form G-28''
   = Inl (ValueError (''Gemini API returned invalid JSON format. JSON parsing error: ''
                      @ ''Expecting value: line 1 column 1 (char 0)''))
   \<and> contains ''invalid JSON'' (invalid_json_message ''Expecting value: line 1 column 1 (char 0)'')
   \<and> contains ''Expecting value: line 1 column 1 (char 0)''
        (invalid_json_message ''Expecting value: line 1 column 1 (char 0)'')"
proof -
  let ?L = "example_libs (Inr refusal_response) ''{}'' (PDict [])"
  have g: "generate_content ?L (GEMINI_MODEL_NAME default_config) (prompt ''P<UTO'' ''Form G-28'')
           = Inr refusal_response"
    by (simp add: example_libs_def)
  have j: "json_loads ?L (strip_fences refusal_response)
           = Inl (JSONDecodeError ''Expecting value: line 1 column 1 (char 0)'')"
    by (simp add: strip_fences_refusal example_libs_def expecting_value_def)
  from invalid_json_failure [OF g, THEN conjunct1, rule_format, OF j] show ?thesis .
qed

lemma strip_fences_deep: "strip_fences deep_response = deep_response"
proof -
  have s: "strip deep_response = deep_response"
    by (simp add: strip_def deep_response_def is_space_def)
  have a: "\<not> startswith deep_response (fence @ ''json'')"
    by (simp add: startswith_def deep_response_def fence_def)
  have b: "\<not> startswith deep_response fence"
    by (simp add: startswith_def deep_response_def fence_def replicate_zeros)
  have c: "\<not> endswith deep_response fence"
    by (simp add: endswith_def deep_response_def fence_def replicate_zeros)
  show ?thesis
    by (simp add: strip_fences_def Let_def s a b c)
qed

theorem no_excerpt_counterexample:
  "extract_data default_config (example_libs (Inr ''@@@'') ''{}'' (PDict [])) ''P<UTO'' ''Form G-28''
   = Inl (ValueError
       ''Gemini API returned invalid JSON format. JSON parsing error: Expecting value: line 1 column 1 (char 0)'')
   \<and> \<not> common_fragment ''@@@''
       ''Gemini API returned invalid JSON format. JSON parsing error: Expecting value: line 1 column 1 (char 0)''
   \<and> extract_data default_config deep_libs ''P<UTO'' ''Form G-28''
   = Inl (ValueError
       ''LLM extraction error: maximum recursion depth exceeded while decoding a JSON array from a unicode string. Please check your API key and model configuration.'')
   \<and> \<not> contains ''invalid JSON''
       ''LLM extraction error: maximum recursion depth exceeded while decoding a JSON array from a unicode string. Please check your API key and model configuration.''"
proof -
  have "\<not> common_fragment ''@@@''
       ''Gemini API returned invalid JSON format. JSON parsing error: Expecting value: line 1 column 1 (char 0)''"
    by (simp add: common_fragment_def contains_single del: contains.simps)
  moreover have "extract_data default_config (example_libs (Inr ''@@@'') ''{}'' (PDict []))
     ''P<UTO'' ''Form G-28''
   = Inl (ValueError
       ''Gemini API returned invalid JSON format. JSON parsing error: Expecting value: line 1 column 1 (char 0)'')"
    by (simp add: extract_data_def extract_body_def example_libs_def handle_errors_def
        strip_fences_plain expecting_value_def invalid_json_message_def)
  moreover have "classify default_config recursion_text = generic_message recursion_text"
    by (simp add: classify_def recursion_text_def eval_text)
  then have "extract_data default_config deep_libs ''P<UTO'' ''Form G-28''
   = Inl (ValueError
       ''LLM extraction error: maximum recursion depth exceeded while decoding a JSON array from a unicode string. Please check your API key and model configuration.'')"
    by (simp add: extract_data_def extract_body_def deep_libs_def example_libs_def
        strip_fences_deep handle_errors_def)
      (simp add: generic_message_def recursion_text_def)
  moreover have "\<not> contains ''invalid JSON''
       ''LLM extraction error: maximum recursion depth exceeded while decoding a JSON array from a unicode string. Please check your API key and model configuration.''"
    by (simp add: startswith_def)
  ultimately show ?thesis by blast
qed

subsection \<open>The shape of the decoded response\<close>

lemma attribute_text_generic:
  assumes "\<not> is_dict v"
  shows "classify C (attribute_text v ''get'') = generic_message (attribute_text v ''get'')"
proof (cases v)
  case (PDict d)
  with assms show ?thesis by simp
qed (simp_all add: classify_def attribute_text_def eval_text)

lemma passport_of_no_dict:
  assumes "\<not> is_dict data"
  shows "passport_of L data = Inl (attribute_error data ''get'')"
  using assms by (cases data) (simp_all add: passport_of_def py_get_def)

lemma passport_of_member_no_dict:
  assumes "map_of dd ''passport'' = Some v" "\<not> is_dict v"
  shows "passport_of L (PDict dd) = Inl (attribute_error v ''get'')"
  using assms by (cases v) (simp_all add: passport_of_def py_get_def convert_dates_def)

lemma g28_of_member_no_dict:
  assumes "map_of dd ''g28'' = Some v" "\<not> is_dict v"
  shows "g28_of L (PDict dd) = Inl (attribute_error v ''get'')"
  using assms by (cases v) (simp_all add: g28_of_def py_get_def optional_group_def)

lemma field_empty: "field validate [] name = Some None"
  by (simp add: field_def)

lemma PassportData_init_empty: "PassportData_init L [] = Inr empty_passport"
  by (simp add: PassportData_init_def build_def field_empty rejected_def valid_def
      empty_passport_def)

lemma passport_of_missing:
  assumes "map_of dd ''passport'' = None"
  shows "passport_of L (PDict dd) = Inr empty_passport"
  using assms
  by (simp add: passport_of_def py_get_def convert_dates_def date_fields_def
      convert_date_field_def PassportData_init_empty)

lemma g28_of_missing:
  assumes "map_of dd ''g28'' = None"
  shows "g28_of L (PDict dd) = Inr empty_g28"
  using assms by (simp add: g28_of_def py_get_def optional_group_def empty_g28_def)

text \<open>
  C1 (as amended). For every pair of input texts whose remote response decodes:
  \<open>extract_data\<close> fails with a \<open>ValueError\<close> when the decoded document is no JSON object,
  and when its \<open>passport\<close> or its \<open>g28\<close> member is present without being an object. A
  document that only lacks the \<open>passport\<close> member, or the \<open>g28\<close> member, is no failure:
  the passport record, or the G-28 record, is then the empty one, and a document with
  neither gives the two empty records.
\<close>

theorem missing_shape:
  assumes "generate_content L (GEMINI_MODEL_NAME C) (prompt passport_text g28_text) = Inr text"
    and "json_loads L (strip_fences text) = Inr data"
  shows "(\<not> is_dict data \<longrightarrow>
            extract_data C L passport_text g28_text
            = Inl (ValueError (generic_message (attribute_text data ''get''))))
         \<and> (\<forall>dd v. data = PDict dd \<and> map_of dd ''passport'' = Some v \<and> \<not> is_dict v \<longrightarrow>
            extract_data C L passport_text g28_text
            = Inl (ValueError (generic_message (attribute_text v ''get''))))
         \<and> (\<forall>dd v. data = PDict dd \<and> map_of dd ''g28'' = Some v \<and> \<not> is_dict v \<longrightarrow>
            (\<exists>e. extract_data C L passport_text g28_text = Inl e \<and> is_value_error e))
         \<and> (\<forall>dd. data = PDict dd \<and> map_of dd ''passport'' = None \<longrightarrow>
            passport_of L data = Inr empty_passport)
         \<and> (\<forall>dd. data = PDict dd \<and> map_of dd ''g28'' = None \<longrightarrow>
            g28_of L data = Inr empty_g28)
         \<and> (\<forall>dd. data = PDict dd \<and> map_of dd ''passport'' = None \<and> map_of dd ''g28'' = None \<longrightarrow>
            extract_data C L passport_text g28_text = Inr (empty_passport, empty_g28))"
proof -
  have run: "extract_data C L passport_text g28_text = handle_errors C (parse_records L data)"
    using assms by (rule extract_data_decoded)
  have a: "extract_data C L passport_text g28_text
           = Inl (ValueError (generic_message (attribute_text data ''get'')))"
    if "\<not> is_dict data"
    using that
    by (simp add: run parse_records_def passport_of_no_dict attribute_error_def handle_errors_def
        attribute_text_generic)
  have b: "extract_data C L passport_text g28_text
           = Inl (ValueError (generic_message (attribute_text v ''get'')))"
    if "data = PDict dd" "map_of dd ''passport'' = Some v" "\<not> is_dict v" for dd v
    using that
    by (simp add: run parse_records_def passport_of_member_no_dict attribute_error_def
        handle_errors_def attribute_text_generic)
  have c: "\<exists>e. extract_data C L passport_text g28_text = Inl e \<and> is_value_error e"
    if "data = PDict dd" "map_of dd ''g28'' = Some v" "\<not> is_dict v" for dd v
  proof (cases "passport_of L data")
    case (Inl e)
    then have "parse_records L data = Inl e" by (simp add: parse_records_def)
    then obtain e' where "handle_errors C (parse_records L data) = Inl e'"
      by (cases e) (simp_all add: handle_errors_def)
    then show ?thesis using run handle_errors_value_error by metis
  next
    case (Inr p)
    with that have "parse_records L data = Inl (attribute_error v ''get'')"
      by (simp add: parse_records_def g28_of_member_no_dict)
    then show ?thesis
      by (simp add: run attribute_error_def handle_errors_def)
  qed
  have d: "extract_data C L passport_text g28_text = Inr (empty_passport, empty_g28)"
    if "data = PDict dd" "map_of dd ''passport'' = None" "map_of dd ''g28'' = None" for dd
    using that
    by (simp add: run parse_records_def passport_of_missing g28_of_missing handle_errors_def)
  show ?thesis
    using a b c d by (auto simp add: passport_of_missing g28_of_missing)
qed

lemma strip_fences_braces: "strip_fences ''{}'' = ''{}''"
  by (simp add: strip_fences_def strip_def is_space_def startswith_def endswith_def fence_def)

lemma strip_fences_fenced:
  "strip_fences (fence @ ''json'' @ nl @ ''{}'' @ nl @ fence @ nl) = strip_fences ''{}''"
  by (simp add: strip_fences_def strip_def is_space_def startswith_def endswith_def fence_def
      nl_def)

theorem empty_object_counterexample:
  "extract_data default_config (example_libs (Inr ''{}'') ''{}'' (PDict [])) ''P<UTO'' ''Form G-28''
   = Inr (empty_passport, empty_g28)"
  by (simp add: extract_data_def extract_body_def example_libs_def strip_fences_braces
      parse_records_def passport_of_missing g28_of_missing handle_errors_def)

theorem missing_shape_witness:
  "extract_data default_config
     (example_libs (Inr ''{\"passport\": null}'') ''{\"passport\": null}''
        (PDict [(''passport'', PNone)]))
     ''P<UTO'' ''Form G-28''
   = Inl (ValueError (generic_message (attribute_text PNone ''get'')))"
proof -
  let ?L = "example_libs (Inr ''{\"passport\": null}'') ''{\"passport\": null}''
              (PDict [(''passport'', PNone)])"
  have g: "generate_content ?L (GEMINI_MODEL_NAME default_config) (prompt ''P<UTO'' ''Form G-28'')
           = Inr ''{\"passport\": null}''"
    by (simp add: example_libs_def)
  have s: "strip_fences ''{\"passport\": null}'' = ''{\"passport\": null}''"
    by (simp add: strip_fences_def strip_def is_space_def startswith_def endswith_def fence_def)
  have j: "json_loads ?L (strip_fences ''{\"passport\": null}'') = Inr (PDict [(''passport'', PNone)])"
    by (simp add: s example_libs_def)
  from missing_shape [OF g j] show ?thesis by simp
qed

subsection \<open>The date fields\<close>

lemma map_of_setitem: "map_of (setitem d k v) = (map_of d)(k \<mapsto> v)"
  by (simp add: setitem_def update_conv')

lemma map_of_convert_date_field:
  "map_of (convert_date_field L d f) k =
     (if k = f then convert_value L (map_of d f) else map_of d k)"
  by (auto simp add: convert_date_field_def convert_value_def map_of_setitem
      split: option.splits pyval.splits)

lemma map_of_converted:
  "map_of (foldl (convert_date_field L) d date_fields) k =
     (if k \<in> set date_fields then convert_value L (map_of d k) else map_of d k)"
  by (simp add: date_fields_def map_of_convert_date_field)

lemma PassportData_init_cong:
  assumes "map_of kw = map_of kw'"
  shows "PassportData_init L kw = PassportData_init L kw'"
proof -
  have s: "field (opt_str L) kw = field (opt_str L) kw'"
    by (rule ext) (simp add: field_def assms)
  have d: "field (opt_date L) kw = field (opt_date L) kw'"
    by (rule ext) (simp add: field_def assms)
  show ?thesis by (simp only: PassportData_init_def s d)
qed

lemma in_rejected: "x \<in> set (rejected g n) \<longleftrightarrow> x = n \<and> g n = None"
  by (simp add: rejected_def)

lemma build_Inr: "build cls bad m = Inr p \<longleftrightarrow> bad = [] \<and> p = m"
  by (auto simp add: build_def)

lemma build_Inl: "build cls bad m = Inl e \<longleftrightarrow> bad \<noteq> [] \<and> e = ValidationError cls bad"
  by (auto simp add: build_def)

lemma PassportData_init_dates:
  assumes "PassportData_init L kw = Inr p"
  shows "date_of_birth p = valid (field (opt_date L) kw ''date_of_birth'')"
    and "issue_date p = valid (field (opt_date L) kw ''issue_date'')"
    and "expiry_date p = valid (field (opt_date L) kw ''expiry_date'')"
  using assms by (simp_all add: PassportData_init_def Let_def build_Inr)

lemma PassportData_init_rejected:
  assumes "PassportData_init L kw = Inl (ValidationError cls bad)" and "x \<in> set bad"
  shows "(field (opt_str L) kw x = None \<and> x \<notin> set date_fields)
         \<or> (field (opt_date L) kw x = None \<and> x \<in> set date_fields)"
proof -
  from assms(1) have
    "bad = rejected (field (opt_str L) kw) ''surname''
       @ rejected (field (opt_str L) kw) ''given_names''
       @ rejected (field (opt_str L) kw) ''middle_names''
       @ rejected (field (opt_str L) kw) ''passport_number''
       @ rejected (field (opt_str L) kw) ''country_of_issue''
       @ rejected (field (opt_str L) kw) ''nationality''
       @ rejected (field (opt_date L) kw) ''date_of_birth''
       @ rejected (field (opt_str L) kw) ''place_of_birth''
       @ rejected (field (opt_str L) kw) ''sex''
       @ rejected (field (opt_date L) kw) ''issue_date''
       @ rejected (field (opt_date L) kw) ''expiry_date''"
    by (simp add: PassportData_init_def Let_def build_Inl)
  with assms(2) show ?thesis
    by (auto simp add: in_rejected date_fields_def)
qed

lemma date_field_cases:
  assumes "f \<in> set date_fields"
  obtains "f = ''date_of_birth''" | "f = ''issue_date''" | "f = ''expiry_date''"
  using assms by (auto simp add: date_fields_def)

lemma PassportData_init_date:
  assumes "f \<in> set date_fields" and "map_of kw f = Some PNone"
  shows "(\<forall>p. PassportData_init L kw = Inr p \<longrightarrow> date_attr f p = None)
         \<and> (\<forall>cls bad. PassportData_init L kw = Inl (ValidationError cls bad) \<longrightarrow> f \<notin> set bad)"
proof -
  have ok: "field (opt_date L) kw f = Some None"
    using assms by (simp add: field_def opt_date_def)
  have "date_attr f p = None" if init: "PassportData_init L kw = Inr p" for p
  proof -
    note d = PassportData_init_dates [OF init]
    from assms(1) show ?thesis
    proof (cases rule: date_field_cases)
      case 1
      with ok have "field (opt_date L) kw ''date_of_birth'' = Some None" by simp
      with d(1) 1 show ?thesis by (simp add: date_attr_def valid_def)
    next
      case 2
      with ok have "field (opt_date L) kw ''issue_date'' = Some None" by simp
      with d(2) 2 show ?thesis by (simp add: date_attr_def valid_def)
    next
      case 3
      with ok have "field (opt_date L) kw ''expiry_date'' = Some None" by simp
      with d(3) 3 show ?thesis by (simp add: date_attr_def valid_def)
    qed
  qed
  moreover have "f \<notin> set bad" if init: "PassportData_init L kw = Inl (ValidationError cls bad)"
    for cls bad
  proof
    assume "f \<in> set bad"
    from PassportData_init_rejected [OF init this] assms(1) ok show False by simp
  qed
  ultimately show ?thesis by blast
qed

lemma converted_null:
  assumes "f \<in> set date_fields" and "map_of pd f = Some (PStr s)" and "s \<noteq> []"
    and "strptime L s = None"
  shows "map_of (foldl (convert_date_field L) pd date_fields)
         = map_of (foldl (convert_date_field L) (setitem pd f PNone) date_fields)"
proof (rule ext)
  fix k
  show "map_of (foldl (convert_date_field L) pd date_fields) k
        = map_of (foldl (convert_date_field L) (setitem pd f PNone) date_fields) k"
  proof (cases "k = f")
    case True
    with assms show ?thesis
      by (simp add: map_of_converted map_of_setitem convert_value_def)
  next
    case False
    then show ?thesis
      by (simp add: map_of_converted map_of_setitem)
  qed
qed

lemma passport_of_null:
  assumes "f \<in> set date_fields" and "map_of dd ''passport'' = Some (PDict pd)"
    and "map_of pd f = Some (PStr s)" and "s \<noteq> []" and "strptime L s = None"
  shows "passport_of L (PDict dd)
         = passport_of L (PDict (setitem dd ''passport'' (PDict (setitem pd f PNone))))"
  using assms(2) PassportData_init_cong [OF converted_null [OF assms(1,3,4,5)]]
  by (simp add: passport_of_def py_get_def convert_dates_def map_of_setitem)

lemma g28_of_other_member:
  "g28_of L (PDict (setitem dd ''passport'' v)) = g28_of L (PDict dd)"
  by (simp add: g28_of_def py_get_def map_of_setitem)

lemma passport_of_degraded:
  assumes "f \<in> set date_fields" and "map_of dd ''passport'' = Some (PDict pd)"
    and "map_of pd f = Some (PStr s)" and "s \<noteq> []" and "strptime L s = None"
  shows "passport_of L (PDict dd) = PassportData_init L (foldl (convert_date_field L) pd date_fields)"
    and "map_of (foldl (convert_date_field L) pd date_fields) f = Some PNone"
  using assms
  by (simp_all add: passport_of_def py_get_def convert_dates_def map_of_converted convert_value_def)

text \<open>
  C2 (as amended). For each of the passport's three date fields: a value that is a
  non-empty string and fails the \<open>YYYY-MM-DD\<close> parsing (a wrong format, an impossible
  calendar date) is replaced by \<open>None\<close> before the record is built; the outcome of the
  whole call is the outcome for the same response with \<open>null\<close> in that field, the record,
  when the call returns one, has \<open>None\<close> there, and the passport record's validation
  never rejects that field. A value that is no string, and the empty string, are not
  parsed: they reach the record's validation as they are.
\<close>

theorem bad_date_degrades:
  assumes "generate_content L (GEMINI_MODEL_NAME C) (prompt passport_text g28_text) = Inr text"
    and "json_loads L (strip_fences text) = Inr (PDict dd)"
    and "map_of dd ''passport'' = Some (PDict pd)"
    and "f \<in> set date_fields"
    and "map_of pd f = Some (PStr s)" and "s \<noteq> []" and "strptime L s = None"
  shows "(\<exists>cd. convert_dates L (PDict pd) = Inr cd \<and> map_of cd f = Some PNone)
         \<and> extract_data C L passport_text g28_text
           = handle_errors C
               (parse_records L (PDict (setitem dd ''passport'' (PDict (setitem pd f PNone)))))
         \<and> (\<forall>p g. extract_data C L passport_text g28_text = Inr (p, g) \<longrightarrow> date_attr f p = None)
         \<and> (\<forall>cls bad. passport_of L (PDict dd) = Inl (ValidationError cls bad) \<longrightarrow> f \<notin> set bad)
         \<and> (\<forall>d v. map_of d f = Some v \<and> (\<forall>t. v = PStr t \<longrightarrow> t = []) \<longrightarrow>
              map_of (foldl (convert_date_field L) d date_fields) f = Some v)"
proof -
  let ?cd = "foldl (convert_date_field L) pd date_fields"
  have five: "map_of (foldl (convert_date_field L) d date_fields) f = Some v"
    if "map_of d f = Some v" "\<forall>t. v = PStr t \<longrightarrow> t = []" for d v
    using that assms(4) by (cases v) (simp_all add: map_of_converted convert_value_def)
  note deg = passport_of_degraded [OF assms(4,3,5,6,7)]
  note init = PassportData_init_date [OF assms(4) deg(2), of L]
  have run: "extract_data C L passport_text g28_text = handle_errors C (parse_records L (PDict dd))"
    using assms(1,2) by (rule extract_data_decoded)
  have one: "\<exists>cd. convert_dates L (PDict pd) = Inr cd \<and> map_of cd f = Some PNone"
    using deg(2) by (simp add: convert_dates_def)
  have two: "parse_records L (PDict dd)
             = parse_records L (PDict (setitem dd ''passport'' (PDict (setitem pd f PNone))))"
    unfolding parse_records_def g28_of_other_member
    using passport_of_null [OF assms(4,3,5,6,7)] by simp
  have three: "date_attr f p = None" if "extract_data C L passport_text g28_text = Inr (p, g)"
    for p g
  proof -
    from that have "parse_records L (PDict dd) = Inr (p, g)"
      by (auto simp add: run handle_errors_def split: sum.splits exn.splits)
    then have "passport_of L (PDict dd) = Inr p"
      by (auto simp add: parse_records_def split: sum.splits)
    with deg(1) init show ?thesis by simp
  qed
  have four: "f \<notin> set bad" if "passport_of L (PDict dd) = Inl (ValidationError cls bad)"
    for cls bad
    using that deg(1) init by simp
  show ?thesis
    using one two three four five by (simp add: run)
qed

subsection \<open>The reference \<open>strptime\<close> on examples\<close>

lemmas eval_strptime = strptime_ymd_def match_month_def match_day_def make_date_def
  days_in_month_def is_leap_def is_digit_def int_of_digits_def digit_val_def

lemma strptime_ymd_examples:
  "strptime_ymd ''2030-01-15'' = Some \<lparr>year = 2030, month = 1, day = 15\<rparr>"
  "strptime_ymd ''2030-02-30'' = None"
  "strptime_ymd ''2023-02-29'' = None"
  "strptime_ymd ''2024-02-29'' = Some \<lparr>year = 2024, month = 2, day = 29\<rparr>"
  "strptime_ymd ''15/01/2030'' = None"
  "strptime_ymd ''2030-13-01'' = None"
  "strptime_ymd ''2030-01-15T00:00:00'' = None"
  "strptime_ymd ''January 15, 2030'' = None"
  "strptime_ymd ''2030-1-5'' = Some \<lparr>year = 2030, month = 1, day = 5\<rparr>"
  "strptime_ymd ''0000-01-01'' = None"
  by (simp_all add: eval_strptime)

lemma strip_fences_bad_date: "strip_fences bad_date_response = bad_date_response"
  by (simp add: bad_date_response_def strip_fences_def strip_def is_space_def startswith_def
      endswith_def fence_def)

theorem bad_date_degrades_witness:
  "extract_data default_config
     (example_libs (Inr bad_date_response) bad_date_response
        (PDict [(''passport'',
                 PDict [(''surname'', PStr ''DOE''), (''date_of_birth'', PStr ''2030-02-30'')])]))
     ''P<UTO'' ''Form G-28''
   = Inr (empty_passport\<lparr>surname := Some ''DOE''\<rparr>, empty_g28)"
proof -
  let ?pd = "[(''surname'', PStr ''DOE''), (''date_of_birth'', PStr ''2030-02-30'')]"
  let ?dd = "[(''passport'', PDict ?pd)]"
  let ?L = "example_libs (Inr bad_date_response) bad_date_response (PDict ?dd)"
  have g: "generate_content ?L (GEMINI_MODEL_NAME default_config) (prompt ''P<UTO'' ''Form G-28'')
           = Inr bad_date_response"
    by (simp add: example_libs_def)
  have j: "json_loads ?L (strip_fences bad_date_response) = Inr (PDict ?dd)"
    by (simp add: strip_fences_bad_date example_libs_def)
  have p: "map_of ?dd ''passport'' = Some (PDict ?pd)" by simp
  have f: "''date_of_birth'' \<in> set date_fields" by (simp add: date_fields_def)
  have v: "map_of ?pd ''date_of_birth'' = Some (PStr ''2030-02-30'')" by simp
  have ne: "''2030-02-30'' \<noteq> []" by simp
  have bad: "strptime ?L ''2030-02-30'' = None"
    by (simp add: example_libs_def strptime_ymd_examples)
  from bad_date_degrades [OF g j p f v ne bad]
  have "extract_data default_config ?L ''P<UTO'' ''Form G-28''
        = handle_errors default_config
            (parse_records ?L
               (PDict (setitem ?dd ''passport'' (PDict (setitem ?pd ''date_of_birth'' PNone)))))"
    by blast
  also have "\<dots> = Inr (empty_passport\<lparr>surname := Some ''DOE''\<rparr>, empty_g28)"
    by (simp add: setitem_def parse_records_def passport_of_def g28_of_def py_get_def
        convert_dates_def date_fields_def convert_date_field_def optional_group_def
        PassportData_init_def build_def field_def rejected_def valid_def opt_str_def
        opt_date_def handle_errors_def empty_passport_def empty_g28_def)
  finally show ?thesis .
qed

lemma strip_fences_list_date: "strip_fences list_date_response = list_date_response"
  by (simp add: list_date_response_def strip_fences_def strip_def is_space_def startswith_def
      endswith_def fence_def)

theorem non_string_date_counterexample:
  "extract_data default_config
     (example_libs (Inr list_date_response) list_date_response
        (PDict [(''passport'',
                 PDict [(''date_of_birth'', PList [PInt 1990, PInt 5, PInt 17])])]))
     ''P<UTO'' ''Form G-28''
   = Inl (ValidationError ''PassportData'' [''date_of_birth''])"
  by (simp add: extract_data_def extract_body_def example_libs_def strip_fences_list_date
      parse_records_def passport_of_def py_get_def convert_dates_def date_fields_def
      convert_date_field_def PassportData_init_def build_def field_def rejected_def
      opt_date_def handle_errors_def)

section \<open>Properties of the TextAcquisitionPipeline\<close>

lemma sufficient_iff:
  "sufficient x \<longleftrightarrow> (\<exists>t. x = Some t \<and> 50 \<le> length (strip t))"
proof (cases x)
  case None
  then show ?thesis by (simp add: sufficient_def)
next
  case (Some t)
  have "t \<noteq> []" if "50 \<le> length (strip t)"
    using that by (auto simp add: strip_def)
  with Some show ?thesis by (auto simp add: sufficient_def)
qed

lemma local_calls:
  assumes "lower (suffix D) = ''.pdf''"
  shows "snd (extract_text_from_pdf_or_image D) =
           (if sufficient (extract_text_from_pdf D) then [ExtractText]
            else if get_pdf_page_count D = 0 then [ExtractText, PageCount]
            else [ExtractText, PageCount] @ snd (ocr_pages D [0..<get_pdf_page_count D]))"
  using assms by (simp add: extract_text_from_pdf_or_image_def Let_def)

lemma local_accept:
  assumes "lower (suffix D) = ''.pdf''" and "sufficient (extract_text_from_pdf D)"
  shows "extract_text_from_pdf_or_image D = (extract_text_from_pdf D, [ExtractText])"
  using assms by (simp add: extract_text_from_pdf_or_image_def Let_def)

lemma fallback_calls: "\<exists>calls. snd (gemini_pdf_fallback G) = UploadFile # calls"
  by (simp add: gemini_pdf_fallback_def split: option.split sum.split)

lemma remote_calls:
  assumes "lower (suffix D) = ''.pdf''" and "configure G = None"
  shows "snd (extract_passport_text_with_gemini G D) =
           (if sufficient (extract_text_from_pdf D) then [ExtractText]
            else ExtractText # snd (gemini_pdf_fallback G))"
  using assms
  by (simp add: extract_passport_text_with_gemini_def extract_passport_body_def Let_def
      split: sum.split)

lemma remote_accept:
  assumes "lower (suffix D) = ''.pdf''" and "configure G = None"
    and "sufficient (extract_text_from_pdf D)"
  shows "extract_passport_text_with_gemini G D = (extract_text_from_pdf D, [ExtractText])"
  using assms
  by (simp add: extract_passport_text_with_gemini_def extract_passport_body_def Let_def)

lemma remote_fallback:
  assumes "lower (suffix D) = ''.pdf''" and "configure G = None"
    and "\<not> sufficient (extract_text_from_pdf D)"
  shows "fst (extract_passport_text_with_gemini G D) =
           (case fst (gemini_pdf_fallback G) of Inl e \<Rightarrow> None | Inr t \<Rightarrow> t)"
  using assms
  by (simp add: extract_passport_text_with_gemini_def extract_passport_body_def Let_def
      split: sum.split)

text \<open>
  C8. For every PDF document (and, on the passport path, a model object that was built),
  the embedded text is accepted, and nothing else is called, exactly when it exists and
  its trimmed length is at least 50 characters; this holds for the local path and for
  the passport path. Accepted, the text is returned as it is; otherwise the local path
  goes on to the page count and the recognition of the pages, and the passport path to
  the upload.
\<close>

theorem fallback_threshold:
  assumes "lower (suffix D) = ''.pdf''" and "configure G = None"
  shows "(sufficient (extract_text_from_pdf D)
            \<longleftrightarrow> (\<exists>t. extract_text_from_pdf D = Some t \<and> 50 \<le> length (strip t)))
         \<and> (snd (extract_text_from_pdf_or_image D) = [ExtractText]
            \<longleftrightarrow> sufficient (extract_text_from_pdf D))
         \<and> (snd (extract_passport_text_with_gemini G D) = [ExtractText]
            \<longleftrightarrow> sufficient (extract_text_from_pdf D))
         \<and> (sufficient (extract_text_from_pdf D) \<longrightarrow>
              extract_text_from_pdf_or_image D = (extract_text_from_pdf D, [ExtractText])
              \<and> extract_passport_text_with_gemini G D = (extract_text_from_pdf D, [ExtractText]))
         \<and> (\<not> sufficient (extract_text_from_pdf D) \<longrightarrow>
              take 2 (snd (extract_text_from_pdf_or_image D)) = [ExtractText, PageCount]
              \<and> take 2 (snd (extract_passport_text_with_gemini G D)) = [ExtractText, UploadFile]
              \<and> fst (extract_passport_text_with_gemini G D)
                = (case fst (gemini_pdf_fallback G) of Inl e \<Rightarrow> None | Inr t \<Rightarrow> t))"
proof -
  obtain calls where calls: "snd (gemini_pdf_fallback G) = UploadFile # calls"
    using fallback_calls by blast
  have l: "snd (extract_text_from_pdf_or_image D) = [ExtractText]
           \<longleftrightarrow> sufficient (extract_text_from_pdf D)"
    by (simp add: local_calls [OF assms(1)])
  have r: "snd (extract_passport_text_with_gemini G D) = [ExtractText]
           \<longleftrightarrow> sufficient (extract_text_from_pdf D)"
    by (simp add: remote_calls [OF assms] calls)
  have a: "extract_text_from_pdf_or_image D = (extract_text_from_pdf D, [ExtractText])
           \<and> extract_passport_text_with_gemini G D = (extract_text_from_pdf D, [ExtractText])"
    if "sufficient (extract_text_from_pdf D)"
    using that local_accept [OF assms(1)] remote_accept [OF assms] by simp
  have f: "take 2 (snd (extract_text_from_pdf_or_image D)) = [ExtractText, PageCount]
           \<and> take 2 (snd (extract_passport_text_with_gemini G D)) = [ExtractText, UploadFile]
           \<and> fst (extract_passport_text_with_gemini G D)
             = (case fst (gemini_pdf_fallback G) of Inl e \<Rightarrow> None | Inr t \<Rightarrow> t)"
    if "\<not> sufficient (extract_text_from_pdf D)"
    using that remote_fallback [OF assms]
    by (simp add: local_calls [OF assms(1)] remote_calls [OF assms] calls numeral_2_eq_2)
  show ?thesis
    using sufficient_iff [of "extract_text_from_pdf D"] l r a f by blast
qed

lemma trimmed_lengths:
  "length (strip text_49) = 49" "length (strip text_50) = 50"
  by (simp_all add: text_49_def text_50_def strip_def is_space_def nl_def)

lemma scanned_pdf: "lower (suffix (scanned t)) = ''.pdf''"
  by (simp add: scanned_def lower_simps lower_char_def char_of_def bit_Suc_0_iff)

theorem fallback_threshold_witness:
  "length (strip text_50) = 50
   \<and> extract_text_from_pdf_or_image (scanned text_50) = (Some text_50, [ExtractText])
   \<and> extract_passport_text_with_gemini service (scanned text_50) = (Some text_50, [ExtractText])
   \<and> length (strip text_49) = 49
   \<and> extract_text_from_pdf_or_image (scanned text_49)
     = (Some (''[Page 1]'' @ nl @ ''PASSPORT UTOPIA''),
        [ExtractText, PageCount, ConvertPage 0, Recognize])
   \<and> extract_passport_text_with_gemini service (scanned text_49)
     = (Some (''PASSPORT'' @ nl @ ''UTOPIA''),
        [ExtractText, UploadFile, GenerateContent, DeleteFile])"
proof -
  have c: "configure service = None" by (simp add: service_def)
  have e: "extract_text_from_pdf (scanned t) = Some t" for t by (simp add: scanned_def)
  have s50: "sufficient (extract_text_from_pdf (scanned text_50))"
    by (simp add: e sufficient_iff trimmed_lengths)
  have s49: "\<not> sufficient (extract_text_from_pdf (scanned text_49))"
    by (simp add: e sufficient_iff trimmed_lengths)
  have accepted:
    "extract_text_from_pdf_or_image (scanned text_50) = (Some text_50, [ExtractText])
     \<and> extract_passport_text_with_gemini service (scanned text_50) = (Some text_50, [ExtractText])"
    using fallback_threshold [OF scanned_pdf c, of text_50] s50 by (simp add: e)
  have f: "fst (gemini_pdf_fallback service) = Inr (Some (''PASSPORT'' @ nl @ ''UTOPIA''))"
    "snd (gemini_pdf_fallback service) = [UploadFile, GenerateContent, DeleteFile]"
    by (simp_all add: gemini_pdf_fallback_def service_def response_text_def strip_def
        is_space_def nl_def)
  have remote: "extract_passport_text_with_gemini service (scanned text_49)
     = (Some (''PASSPORT'' @ nl @ ''UTOPIA''),
        [ExtractText, UploadFile, GenerateContent, DeleteFile])"
    using fallback_threshold [OF scanned_pdf c, of text_49] s49
      remote_calls [OF scanned_pdf c, of text_49]
    by (simp add: f prod_eq_iff)
  have pages: "ocr_pages (scanned text_49) [0..<Suc 0]
               = ([''[Page 1]'' @ nl @ ''PASSPORT UTOPIA''], [ConvertPage 0, Recognize])"
    by (simp add: scanned_def str_nat_digit digit_char_simps)
  have loc: "extract_text_from_pdf_or_image (scanned text_49)
     = (Some (''[Page 1]'' @ nl @ ''PASSPORT UTOPIA''),
        [ExtractText, PageCount, ConvertPage 0, Recognize])"
    using s49 pages
    by (simp add: extract_text_from_pdf_or_image_def Let_def scanned_pdf)
       (simp add: scanned_def)
  show ?thesis
    using accepted remote loc by (simp add: trimmed_lengths)
qed

section \<open>Properties of the FormFillAdapter\<close>

lemma fill_fields_count:
  "length (fst (fst (fill_fields B flds both s))) + length (snd (fst (fill_fields B flds both s)))
   = length (fst both) + length (snd both) + entered flds"
proof (induction flds arbitrary: both s)
  case Nil
  then show ?case by (simp add: entered_def)
next
  case (Cons kv rest)
  obtain k v where kv: "kv = (k, v)" by (cases kv)
  show ?case
    unfolding kv by (simp add: Cons.IH) (simp add: entered_def)
qed

lemma set_checkboxes_count:
  "length (fst (fst (set_checkboxes B boxes both s)))
   + length (snd (fst (set_checkboxes B boxes both s)))
   = length (fst both) + length (snd both) + length boxes"
proof (induction boxes arbitrary: both s)
  case Nil
  then show ?case by simp
next
  case (Cons kb rest)
  obtain k b where kb: "kb = (k, b)" by (cases kb)
  show ?case
    unfolding kb by (simp add: Cons.IH)
qed

lemma report_fields:
  "error (report both shot pdf) = None"
  "success (report both shot pdf) = (filled_fields (report both shot pdf) \<noteq> [])"
  "success (report both shot pdf) = (0 < total_filled (report both shot pdf))"
  "total_filled (report both shot pdf) = length (filled_fields (report both shot pdf))"
  "total_failed (report both shot pdf) = length (failed_fields (report both shot pdf))"
  "screenshot_path (report both shot pdf) = shot"
  "pdf_path (report both shot pdf) = pdf"
  "filled_fields (report both shot pdf) = fst both"
  "failed_fields (report both shot pdf) = snd both"
  by (simp_all add: report_def)

lemma step_Inr:
  assumes "step B a s rest = (Inr r, s')"
  obtains s1 where "perform B a s = (None, s1)" and "rest s1 = (Inr r, s')"
  using assms by (auto simp add: step_def split: prod.splits option.splits)

lemma fill_page_report:
  assumes "fill_page C B flds boxes generate_pdf s = (Inr r, s')"
  shows "\<exists>s2. r = report (fst (set_checkboxes B boxes (fst (fill_fields B flds ([], []) s2))
                                 (snd (fill_fields B flds ([], []) s2))))
                     (Some ''uploads/form_populated.png'')
                     (if generate_pdf then Some ''uploads/form_filled.pdf'' else None)"
  using assms unfolding fill_page_def Let_def
  by (auto simp add: step_def split: prod.splits option.splits if_splits)

lemma fill_page_completed:
  assumes "fill_page C B flds boxes generate_pdf s = (Inr r, s')"
  shows "completed generate_pdf flds boxes r"
proof -
  from fill_page_report [OF assms] obtain s2 where
    r: "r = report (fst (set_checkboxes B boxes (fst (fill_fields B flds ([], []) s2))
                           (snd (fill_fields B flds ([], []) s2))))
               (Some ''uploads/form_populated.png'')
               (if generate_pdf then Some ''uploads/form_filled.pdf'' else None)"
    by blast
  let ?both = "fst (set_checkboxes B boxes (fst (fill_fields B flds ([], []) s2))
                      (snd (fill_fields B flds ([], []) s2)))"
  have n: "length (fst ?both) + length (snd ?both) = entered flds + length boxes"
    by (simp add: set_checkboxes_count fill_fields_count)
  show ?thesis
    unfolding r completed_def using n by (simp add: report_fields)
qed

lemma populate_body_completed:
  assumes "populate_body C B flds boxes s = (Inr r, s')"
  shows "completed (HEADLESS_MODE C) flds boxes r"
proof (cases "HEADLESS_MODE C")
  case True
  with assms obtain s3 s4 where "fill_page C B flds boxes True s3 = (Inr r, s4)"
    by (auto simp add: populate_body_def step_def Let_def
        split: prod.splits option.splits sum.splits)
  from fill_page_completed [OF this] True show ?thesis by simp
next
  case False
  with assms obtain s3 where "fill_page C B flds boxes False s3 = (Inr r, s')"
    by (auto simp add: populate_body_def step_def split: prod.splits option.splits)
  from fill_page_completed [OF this] False show ?thesis by simp
qed

lemma failure_fields:
  "success (failure m) = False" "total_filled (failure m) = 0" "total_failed (failure m) = 0"
  "filled_fields (failure m) = []" "failed_fields (failure m) = []"
  "screenshot_path (failure m) = None" "pdf_path (failure m) = None"
  "error (failure m) = Some m"
  by (simp_all add: failure_def)

lemma fill_fields_append:
  "fill_fields B (xs @ ys) both s
   = fill_fields B ys (fst (fill_fields B xs both s)) (snd (fill_fields B xs both s))"
proof (induction xs arbitrary: both s)
  case Nil
  then show ?case by simp
next
  case (Cons kv rest)
  obtain k v where kv: "kv = (k, v)" by (cases kv)
  show ?case
    unfolding kv by (simp add: Cons.IH)
qed

lemma set_checkboxes_append:
  "set_checkboxes B (xs @ ys) both s
   = set_checkboxes B ys (fst (set_checkboxes B xs both s)) (snd (set_checkboxes B xs both s))"
proof (induction xs arbitrary: both s)
  case Nil
  then show ?case by simp
next
  case (Cons kb rest)
  obtain k b where kb: "kb = (k, b)" by (cases kb)
  show ?case
    unfolding kb by (simp add: Cons.IH)
qed

text \<open>The loops only append to the two lists, and only identifiers of their dictionary.\<close>

lemma fill_fields_keeps:
  "set (fst both) \<subseteq> set (fst (fst (fill_fields B flds both s)))
   \<and> set (snd both) \<subseteq> set (snd (fst (fill_fields B flds both s)))"
proof (induction flds arbitrary: both s)
  case Nil
  then show ?case by simp
next
  case (Cons kv rest)
  obtain k v where kv: "kv = (k, v)" by (cases kv)
  have a: "set (fst both) \<subseteq> set (fst (fst (fill_fields B rest (fst both @ [k], snd both) t)))" for t
    using Cons.IH [of "(fst both @ [k], snd both)" t] by simp
  have b: "set (snd both) \<subseteq> set (snd (fst (fill_fields B rest (fst both, snd both @ [k]) t)))" for t
    using Cons.IH [of "(fst both, snd both @ [k])" t] by simp
  have c: "set (snd both) \<subseteq> set (snd (fst (fill_fields B rest (fst both @ [k], snd both) t)))" for t
    using Cons.IH [of "(fst both @ [k], snd both)" t] by simp
  have d: "set (fst both) \<subseteq> set (fst (fst (fill_fields B rest (fst both, snd both @ [k]) t)))" for t
    using Cons.IH [of "(fst both, snd both @ [k])" t] by simp
  show ?case
    unfolding kv using a b c d Cons.IH [of both s] by simp
qed

lemma set_checkboxes_keeps:
  "set (fst both) \<subseteq> set (fst (fst (set_checkboxes B boxes both s)))
   \<and> set (snd both) \<subseteq> set (snd (fst (set_checkboxes B boxes both s)))"
proof (induction boxes arbitrary: both s)
  case Nil
  then show ?case by simp
next
  case (Cons kb rest)
  obtain k b where kb: "kb = (k, b)" by (cases kb)
  have a: "set (fst both) \<subseteq> set (fst (fst (set_checkboxes B rest (fst both @ [k], snd both) t)))" for t
    using Cons.IH [of "(fst both @ [k], snd both)" t] by simp
  have b: "set (snd both) \<subseteq> set (snd (fst (set_checkboxes B rest (fst both, snd both @ [k]) t)))" for t
    using Cons.IH [of "(fst both, snd both @ [k])" t] by simp
  have c: "set (snd both) \<subseteq> set (snd (fst (set_checkboxes B rest (fst both @ [k], snd both) t)))" for t
    using Cons.IH [of "(fst both @ [k], snd both)" t] by simp
  have d: "set (fst both) \<subseteq> set (fst (fst (set_checkboxes B rest (fst both, snd both @ [k]) t)))" for t
    using Cons.IH [of "(fst both, snd both @ [k])" t] by simp
  show ?case
    unfolding kb using a b c d by simp
qed

lemma fill_fields_within:
  "set (fst (fst (fill_fields B flds both s))) \<subseteq> set (fst both) \<union> fst ` set flds
   \<and> set (snd (fst (fill_fields B flds both s))) \<subseteq> set (snd both) \<union> fst ` set flds"
proof (induction flds arbitrary: both s)
  case Nil
  then show ?case by simp
next
  case (Cons kv rest)
  obtain k v where kv: "kv = (k, v)" by (cases kv)
  have a: "set (fst (fst (fill_fields B rest (fst both @ [k], snd both) t)))
           \<subseteq> set (fst both) \<union> insert k (fst ` set rest)" for t
    using Cons.IH [of "(fst both @ [k], snd both)" t] by auto
  have b: "set (snd (fst (fill_fields B rest (fst both @ [k], snd both) t)))
           \<subseteq> set (snd both) \<union> insert k (fst ` set rest)" for t
    using Cons.IH [of "(fst both @ [k], snd both)" t] by auto
  have c: "set (fst (fst (fill_fields B rest (fst both, snd both @ [k]) t)))
           \<subseteq> set (fst both) \<union> insert k (fst ` set rest)" for t
    using Cons.IH [of "(fst both, snd both @ [k])" t] by auto
  have d: "set (snd (fst (fill_fields B rest (fst both, snd both @ [k]) t)))
           \<subseteq> set (snd both) \<union> insert k (fst ` set rest)" for t
    using Cons.IH [of "(fst both, snd both @ [k])" t] by auto
  have e: "set (fst (fst (fill_fields B rest both s))) \<subseteq> set (fst both) \<union> insert k (fst ` set rest)"
    "set (snd (fst (fill_fields B rest both s))) \<subseteq> set (snd both) \<union> insert k (fst ` set rest)"
    using Cons.IH [of both s] by auto
  show ?case
    unfolding kv using a b c d e by simp
qed

lemma set_checkboxes_within:
  "set (fst (fst (set_checkboxes B boxes both s))) \<subseteq> set (fst both) \<union> fst ` set boxes
   \<and> set (snd (fst (set_checkboxes B boxes both s))) \<subseteq> set (snd both) \<union> fst ` set boxes"
proof (induction boxes arbitrary: both s)
  case Nil
  then show ?case by simp
next
  case (Cons kb rest)
  obtain k b where kb: "kb = (k, b)" by (cases kb)
  have a: "set (fst (fst (set_checkboxes B rest (fst both @ [k], snd both) t)))
           \<subseteq> set (fst both) \<union> insert k (fst ` set rest)" for t
    using Cons.IH [of "(fst both @ [k], snd both)" t] by auto
  have b: "set (snd (fst (set_checkboxes B rest (fst both @ [k], snd both) t)))
           \<subseteq> set (snd both) \<union> insert k (fst ` set rest)" for t
    using Cons.IH [of "(fst both @ [k], snd both)" t] by auto
  have c: "set (fst (fst (set_checkboxes B rest (fst both, snd both @ [k]) t)))
           \<subseteq> set (fst both) \<union> insert k (fst ` set rest)" for t
    using Cons.IH [of "(fst both, snd both @ [k])" t] by auto
  have d: "set (snd (fst (set_checkboxes B rest (fst both, snd both @ [k]) t)))
           \<subseteq> set (snd both) \<union> insert k (fst ` set rest)" for t
    using Cons.IH [of "(fst both, snd both @ [k])" t] by auto
  show ?case
    unfolding kb using a b c d by simp
qed

text \<open>
  One field, entered, anywhere in the dictionary: its identifier is appended to the
  list that the outcome of \<open>fill_field\<close> selects, and stays there to the end. Likewise
  for one checkbox.
\<close>

lemma field_recorded_in:
  assumes "v \<noteq> []"
  shows "if fst (fill_field B k v (snd (fill_fields B pre both s)))
         then k \<in> set (fst (fst (set_checkboxes B boxes
                  (fst (fill_fields B (pre @ (k, v) # post) both s))
                  (snd (fill_fields B (pre @ (k, v) # post) both s)))))
         else k \<in> set (snd (fst (set_checkboxes B boxes
                  (fst (fill_fields B (pre @ (k, v) # post) both s))
                  (snd (fill_fields B (pre @ (k, v) # post) both s)))))"
proof -
  let ?r = "fill_fields B pre both s"
  let ?x = "fill_field B k v (snd ?r)"
  let ?all = "fill_fields B (pre @ (k, v) # post) both s"
  have all: "?all = (if fst ?x then fill_fields B post (fst (fst ?r) @ [k], snd (fst ?r)) (snd ?x)
                     else fill_fields B post (fst (fst ?r), snd (fst ?r) @ [k]) (snd ?x))"
    using assms by (simp add: fill_fields_append)
  show ?thesis
  proof (cases "fst ?x")
    case True
    have "k \<in> set (fst (fst ?all))"
      using fill_fields_keeps [of "(fst (fst ?r) @ [k], snd (fst ?r))" B post "snd ?x"] True
      by (simp add: all)
    with set_checkboxes_keeps [of "fst ?all" B boxes "snd ?all"] True show ?thesis by auto
  next
    case False
    have "k \<in> set (snd (fst ?all))"
      using fill_fields_keeps [of "(fst (fst ?r), snd (fst ?r) @ [k])" B post "snd ?x"] False
      by (simp add: all)
    with set_checkboxes_keeps [of "fst ?all" B boxes "snd ?all"] False show ?thesis by auto
  qed
qed

lemma field_recorded_out:
  assumes "v \<noteq> []" and "k \<notin> fst ` set pre" and "k \<notin> fst ` set post" and "k \<notin> fst ` set boxes"
  shows "if fst (fill_field B k v (snd (fill_fields B pre ([], []) s)))
         then k \<notin> set (snd (fst (set_checkboxes B boxes
                  (fst (fill_fields B (pre @ (k, v) # post) ([], []) s))
                  (snd (fill_fields B (pre @ (k, v) # post) ([], []) s)))))
         else k \<notin> set (fst (fst (set_checkboxes B boxes
                  (fst (fill_fields B (pre @ (k, v) # post) ([], []) s))
                  (snd (fill_fields B (pre @ (k, v) # post) ([], []) s)))))"
proof -
  let ?r = "fill_fields B pre ([], []) s"
  let ?x = "fill_field B k v (snd ?r)"
  let ?all = "fill_fields B (pre @ (k, v) # post) ([], []) s"
  have all: "?all = (if fst ?x then fill_fields B post (fst (fst ?r) @ [k], snd (fst ?r)) (snd ?x)
                     else fill_fields B post (fst (fst ?r), snd (fst ?r) @ [k]) (snd ?x))"
    using assms(1) by (simp add: fill_fields_append)
  have pre: "k \<notin> set (fst (fst ?r))" "k \<notin> set (snd (fst ?r))"
    using fill_fields_within [of B pre "([], [])" s] assms(2) by auto
  show ?thesis
  proof (cases "fst ?x")
    case True
    have "k \<notin> set (snd (fst ?all))"
      using fill_fields_within [of B post "(fst (fst ?r) @ [k], snd (fst ?r))" "snd ?x"] True
        pre assms(3)
      by (auto simp add: all)
    with set_checkboxes_within [of B boxes "fst ?all" "snd ?all"] assms(4) True
    show ?thesis by auto
  next
    case False
    have "k \<notin> set (fst (fst ?all))"
      using fill_fields_within [of B post "(fst (fst ?r), snd (fst ?r) @ [k])" "snd ?x"] False
        pre assms(3)
      by (auto simp add: all)
    with set_checkboxes_within [of B boxes "fst ?all" "snd ?all"] assms(4) False
    show ?thesis by auto
  qed
qed

lemma checkbox_recorded_in:
  "if fst (set_checkbox B k b (snd (set_checkboxes B pre both s)))
   then k \<in> set (fst (fst (set_checkboxes B (pre @ (k, b) # post) both s)))
   else k \<in> set (snd (fst (set_checkboxes B (pre @ (k, b) # post) both s)))"
proof -
  let ?r = "set_checkboxes B pre both s"
  let ?x = "set_checkbox B k b (snd ?r)"
  let ?all = "set_checkboxes B (pre @ (k, b) # post) both s"
  have all: "?all = (if fst ?x
                     then set_checkboxes B post (fst (fst ?r) @ [k], snd (fst ?r)) (snd ?x)
                     else set_checkboxes B post (fst (fst ?r), snd (fst ?r) @ [k]) (snd ?x))"
    by (simp add: set_checkboxes_append)
  show ?thesis
  proof (cases "fst ?x")
    case True
    then show ?thesis
      using set_checkboxes_keeps [of "(fst (fst ?r) @ [k], snd (fst ?r))" B post "snd ?x"]
      by (simp add: all)
  next
    case False
    then show ?thesis
      using set_checkboxes_keeps [of "(fst (fst ?r), snd (fst ?r) @ [k])" B post "snd ?x"]
      by (simp add: all)
  qed
qed

lemma checkbox_recorded_out:
  assumes "k \<notin> set (fst both)" and "k \<notin> set (snd both)"
    and "k \<notin> fst ` set pre" and "k \<notin> fst ` set post"
  shows "if fst (set_checkbox B k b (snd (set_checkboxes B pre both s)))
         then k \<notin> set (snd (fst (set_checkboxes B (pre @ (k, b) # post) both s)))
         else k \<notin> set (fst (fst (set_checkboxes B (pre @ (k, b) # post) both s)))"
proof -
  let ?r = "set_checkboxes B pre both s"
  let ?x = "set_checkbox B k b (snd ?r)"
  let ?all = "set_checkboxes B (pre @ (k, b) # post) both s"
  have all: "?all = (if fst ?x
                     then set_checkboxes B post (fst (fst ?r) @ [k], snd (fst ?r)) (snd ?x)
                     else set_checkboxes B post (fst (fst ?r), snd (fst ?r) @ [k]) (snd ?x))"
    by (simp add: set_checkboxes_append)
  have pre: "k \<notin> set (fst (fst ?r))" "k \<notin> set (snd (fst ?r))"
    using set_checkboxes_within [of B pre both s] assms(1,2,3) by auto
  show ?thesis
  proof (cases "fst ?x")
    case True
    then show ?thesis
      using set_checkboxes_within [of B post "(fst (fst ?r) @ [k], snd (fst ?r))" "snd ?x"]
        pre assms(4)
      by (auto simp add: all)
  next
    case False
    then show ?thesis
      using set_checkboxes_within [of B post "(fst (fst ?r), snd (fst ?r) @ [k])" "snd ?x"]
        pre assms(4)
      by (auto simp add: all)
  qed
qed

lemma either_outcome:
  "((\<exists>e. fst (populate_form C B flds boxes s) = failure (''Form population failed: '' @ e))
      \<or> completed (HEADLESS_MODE C) flds boxes (fst (populate_form C B flds boxes s)))"
proof (cases "populate_body C B flds boxes s")
  case (Pair x s1)
  then show ?thesis
  proof (cases x)
    case (Inl e)
    with Pair have "fst (populate_form C B flds boxes s) = failure (''Form population failed: '' @ e)"
      by (simp add: populate_form_def)
    then show ?thesis by blast
  next
    case (Inr res)
    with Pair populate_body_completed [of C B flds boxes s res s1] show ?thesis
      by (simp add: populate_form_def)
  qed
qed

lemma field_recorded:
  "(\<forall>pre post. flds = pre @ (k, v) # post \<and> v \<noteq> [] \<longrightarrow>
         (if fst (fill_field B k v (snd (fill_fields B pre ([], []) s)))
          then k \<in> set (fst (fst (loops B flds boxes s))) else k \<in> set (snd (fst (loops B flds boxes s)))))"
  using field_recorded_in [of v B k _ "([], [])" s boxes] by blast

lemma field_recorded_once:
  "(\<forall>pre post. flds = pre @ (k, v) # post \<and> v \<noteq> []
          \<and> k \<notin> fst ` set pre \<and> k \<notin> fst ` set post \<and> k \<notin> fst ` set boxes \<longrightarrow>
         (if fst (fill_field B k v (snd (fill_fields B pre ([], []) s)))
          then k \<notin> set (snd (fst (loops B flds boxes s))) else k \<notin> set (fst (fst (loops B flds boxes s)))))"
  using field_recorded_out [of v k _ _ boxes B s] by blast

lemma checkbox_recorded:
  "(\<forall>pre post. boxes = pre @ (k, b) # post \<longrightarrow>
         (if fst (set_checkbox B k b (snd (loops B flds pre s)))
          then k \<in> set (fst (fst (loops B flds boxes s))) else k \<in> set (snd (fst (loops B flds boxes s)))))"
  using checkbox_recorded_in [of B k b _ "fst (fill_fields B flds ([], []) s)"
      "snd (fill_fields B flds ([], []) s)"] by blast

lemma checkbox_recorded_once:
  "(\<forall>pre post. boxes = pre @ (k, b) # post
          \<and> k \<notin> fst ` set flds \<and> k \<notin> fst ` set pre \<and> k \<notin> fst ` set post \<longrightarrow>
         (if fst (set_checkbox B k b (snd (loops B flds pre s)))
          then k \<notin> set (snd (fst (loops B flds boxes s))) else k \<notin> set (fst (fst (loops B flds boxes s)))))"
proof (intro allI impI)
  fix pre post
  assume a: "boxes = pre @ (k, b) # post
          \<and> k \<notin> fst ` set flds \<and> k \<notin> fst ` set pre \<and> k \<notin> fst ` set post"
  have "k \<notin> set (fst (fst (fill_fields B flds ([], []) s)))"
    "k \<notin> set (snd (fst (fill_fields B flds ([], []) s)))"
    using fill_fields_within [of B flds "([], [])" s] a by auto
  from checkbox_recorded_out [OF this, of pre post B b "snd (fill_fields B flds ([], []) s)"] a
  show "if fst (set_checkbox B k b (snd (loops B flds pre s)))
          then k \<notin> set (snd (fst (loops B flds boxes s))) else k \<notin> set (fst (fst (loops B flds boxes s)))"
    by simp
qed

lemma empty_value_skipped:
  "(\<forall>pre post. flds = pre @ (k, []) # post \<longrightarrow>
         loops B flds boxes s = loops B (pre @ post) boxes s)"
  by (simp add: fill_fields_append)

text \<open>
  What one call route of \<open>_fill_page\<close> and of \<open>populate_form\<close> gives, one fact for each
  place where the browser can raise.
\<close>

lemma body_returns:
  "(\<forall>r s1. populate_body C B flds boxes s = (Inr r, s1) \<longrightarrow>
         populate_form C B flds boxes s = (r, s1) \<and> completed (HEADLESS_MODE C) flds boxes r)"
  using populate_body_completed [of C B flds boxes s] by (simp add: populate_form_def)

lemma body_raises:
  "(\<forall>e s1. populate_body C B flds boxes s = (Inl e, s1) \<longrightarrow>
         populate_form C B flds boxes s = (failure (''Form population failed: '' @ e), s1))"
  by (simp add: populate_form_def)

lemma field_count_raises:
  "(\<forall>e s1. element_count B (field_element k) s = (Inl e, s1) \<longrightarrow> fill_field B k v s = (False, s1))"
  by (simp add: fill_field_def field_element_def Let_def)

lemma field_absent:
  "(\<forall>s1. element_count B (field_element k) s = (Inr 0, s1) \<longrightarrow> fill_field B k v s = (False, s1))"
  by (simp add: fill_field_def field_element_def Let_def)

lemma field_tag_raises:
  "(\<forall>n e s1 s2. element_count B (field_element k) s = (Inr n, s1) \<and> 0 < n
          \<and> element_tag B (field_element k) s1 = (Inl e, s2) \<longrightarrow> fill_field B k v s = (False, s2))"
  by (simp add: fill_field_def field_element_def Let_def)

lemma field_action_raises:
  "(\<forall>n tag e s1 s2 s3. element_count B (field_element k) s = (Inr n, s1) \<and> 0 < n
          \<and> element_tag B (field_element k) s1 = (Inr tag, s2)
          \<and> perform B (if tag = ''select'' then SelectOption (field_element k) v else Fill (field_element k) v) s2 = (Some e, s3)
          \<longrightarrow> fill_field B k v s = (False, s3))"
  by (simp add: fill_field_def field_element_def Let_def)

lemma field_action_returns:
  "(\<forall>n tag s1 s2 s3. element_count B (field_element k) s = (Inr n, s1) \<and> 0 < n
          \<and> element_tag B (field_element k) s1 = (Inr tag, s2)
          \<and> perform B (if tag = ''select'' then SelectOption (field_element k) v else Fill (field_element k) v) s2 = (None, s3)
          \<longrightarrow> fill_field B k v s = (True, s3))"
  by (simp add: fill_field_def field_element_def Let_def)

lemma checkbox_count_raises:
  "(\<forall>e s1. element_count B (Locator (''#'' @ k) None) s = (Inl e, s1) \<longrightarrow> set_checkbox B k b s = (False, s1))"
  by (simp add: set_checkbox_def Let_def)

lemma checkbox_absent:
  "(\<forall>s1. element_count B (Locator (''#'' @ k) None) s = (Inr 0, s1) \<longrightarrow> set_checkbox B k b s = (False, s1))"
  by (simp add: set_checkbox_def Let_def)

lemma checkbox_action_raises:
  "(\<forall>n e s1 s2. element_count B (Locator (''#'' @ k) None) s = (Inr n, s1) \<and> 0 < n
          \<and> perform B (if b then Check (Locator (''#'' @ k) None) else Uncheck (Locator (''#'' @ k) None)) s1 = (Some e, s2)
          \<longrightarrow> set_checkbox B k b s = (False, s2))"
  by (simp add: set_checkbox_def Let_def)

lemma checkbox_action_returns:
  "(\<forall>n s1 s2. element_count B (Locator (''#'' @ k) None) s = (Inr n, s1) \<and> 0 < n
          \<and> perform B (if b then Check (Locator (''#'' @ k) None) else Uncheck (Locator (''#'' @ k) None)) s1 = (None, s2)
          \<longrightarrow> set_checkbox B k b s = (True, s2))"
  by (simp add: set_checkbox_def Let_def)

lemma loops_count:
  "length (fst (fst (loops B flds boxes s))) + length (snd (fst (loops B flds boxes s)))
       = entered flds + length boxes"
  by (simp add: set_checkboxes_count fill_fields_count)

lemma goto_raises:
  "(\<forall>e s1. perform B (Goto (FORM_URL C)) s = (Some e, s1) \<longrightarrow> fill_page C B flds boxes g s = (Inl e, s1))"
  by (simp add: fill_page_def step_def Let_def)

lemma wait_raises:
  "(\<forall>e s1 s2. perform B (Goto (FORM_URL C)) s = (None, s1) \<and> perform B (WaitForLoadState ''networkidle'') s1 = (Some e, s2)
          \<longrightarrow> fill_page C B flds boxes g s = (Inl e, s2))"
  by (simp add: fill_page_def step_def Let_def)

lemma screenshot_raises:
  "(\<forall>e s1 s2 s3. perform B (Goto (FORM_URL C)) s = (None, s1) \<and> perform B (WaitForLoadState ''networkidle'') s1 = (None, s2)
          \<and> perform B (Screenshot ''uploads/form_populated.png'') (snd (loops B flds boxes s2)) = (Some e, s3)
          \<longrightarrow> fill_page C B flds boxes g s = (Inl e, s3))"
  by (simp add: fill_page_def step_def Let_def)

lemma pdf_raises:
  "(\<forall>e s1 s2 s3 s4. perform B (Goto (FORM_URL C)) s = (None, s1) \<and> perform B (WaitForLoadState ''networkidle'') s1 = (None, s2)
          \<and> perform B (Screenshot ''uploads/form_populated.png'') (snd (loops B flds boxes s2)) = (None, s3)
          \<and> perform B (Pdf ''uploads/form_filled.pdf'') s3 = (Some e, s4)
          \<longrightarrow> fill_page C B flds boxes True s = (Inl e, s4))"
  by (simp add: fill_page_def step_def Let_def)

lemma page_with_pdf:
  "(\<forall>s1 s2 s3 s4. perform B (Goto (FORM_URL C)) s = (None, s1) \<and> perform B (WaitForLoadState ''networkidle'') s1 = (None, s2)
          \<and> perform B (Screenshot ''uploads/form_populated.png'') (snd (loops B flds boxes s2)) = (None, s3)
          \<and> perform B (Pdf ''uploads/form_filled.pdf'') s3 = (None, s4)
          \<longrightarrow> fill_page C B flds boxes True s
              = (Inr (report (fst (loops B flds boxes s2)) (Some ''uploads/form_populated.png'') (Some ''uploads/form_filled.pdf'')), s4))"
  by (simp add: fill_page_def step_def Let_def)

lemma page_without_pdf:
  "(\<forall>s1 s2 s3. perform B (Goto (FORM_URL C)) s = (None, s1) \<and> perform B (WaitForLoadState ''networkidle'') s1 = (None, s2)
          \<and> perform B (Screenshot ''uploads/form_populated.png'') (snd (loops B flds boxes s2)) = (None, s3)
          \<longrightarrow> fill_page C B flds boxes False s
              = (Inr (report (fst (loops B flds boxes s2)) (Some ''uploads/form_populated.png'') None), s3))"
  by (simp add: fill_page_def step_def Let_def)

lemma start_raises:
  "(\<forall>e s1. perform B Start s = (Some e, s1) \<longrightarrow> populate_form C B flds boxes s = (failure (''Form population failed: '' @ e), s1))"
  by (simp add: populate_form_def populate_body_def step_def)

lemma headless_launch_raises:
  "(\<forall>e x s1 s2 s3. HEADLESS_MODE C \<and> perform B Start s = (None, s1) \<and> perform B (Launch True None) s1 = (Some e, s2)
          \<and> perform B Stop s2 = (x, s3)
          \<longrightarrow> populate_form C B flds boxes s = (failure (''Form population failed: '' @ (case x of None \<Rightarrow> e | Some e' \<Rightarrow> e')), s3))"
  by (simp add: populate_form_def populate_body_def step_def Let_def split: option.splits)

lemma headless_new_page_raises:
  "(\<forall>e x s1 s2 s3 s4. HEADLESS_MODE C \<and> perform B Start s = (None, s1) \<and> perform B (Launch True None) s1 = (None, s2)
          \<and> perform B NewPage s2 = (Some e, s3) \<and> perform B Stop s3 = (x, s4)
          \<longrightarrow> populate_form C B flds boxes s = (failure (''Form population failed: '' @ (case x of None \<Rightarrow> e | Some e' \<Rightarrow> e')), s4))"
  by (simp add: populate_form_def populate_body_def step_def Let_def split: option.splits)

lemma headless_page_raises:
  "(\<forall>e x s1 s2 s3 s4 s5. HEADLESS_MODE C \<and> perform B Start s = (None, s1) \<and> perform B (Launch True None) s1 = (None, s2)
          \<and> perform B NewPage s2 = (None, s3) \<and> fill_page C B flds boxes True s3 = (Inl e, s4)
          \<and> perform B Stop s4 = (x, s5)
          \<longrightarrow> populate_form C B flds boxes s = (failure (''Form population failed: '' @ (case x of None \<Rightarrow> e | Some e' \<Rightarrow> e')), s5))"
  by (simp add: populate_form_def populate_body_def step_def Let_def split: option.splits)

lemma headless_close_raises:
  "(\<forall>r e x s1 s2 s3 s4 s5 s6. HEADLESS_MODE C \<and> perform B Start s = (None, s1) \<and> perform B (Launch True None) s1 = (None, s2)
          \<and> perform B NewPage s2 = (None, s3) \<and> fill_page C B flds boxes True s3 = (Inr r, s4)
          \<and> perform B Close s4 = (Some e, s5) \<and> perform B Stop s5 = (x, s6)
          \<longrightarrow> populate_form C B flds boxes s = (failure (''Form population failed: '' @ (case x of None \<Rightarrow> e | Some e' \<Rightarrow> e')), s6))"
  by (simp add: populate_form_def populate_body_def step_def Let_def split: option.splits)

lemma headless_stop_raises:
  "(\<forall>r e s1 s2 s3 s4 s5 s6. HEADLESS_MODE C \<and> perform B Start s = (None, s1) \<and> perform B (Launch True None) s1 = (None, s2)
          \<and> perform B NewPage s2 = (None, s3) \<and> fill_page C B flds boxes True s3 = (Inr r, s4)
          \<and> perform B Close s4 = (None, s5) \<and> perform B Stop s5 = (Some e, s6)
          \<longrightarrow> populate_form C B flds boxes s = (failure (''Form population failed: '' @ e), s6))"
  by (simp add: populate_form_def populate_body_def step_def Let_def split: option.splits)

lemma headless_returns:
  "(\<forall>r s1 s2 s3 s4 s5 s6. HEADLESS_MODE C \<and> perform B Start s = (None, s1) \<and> perform B (Launch True None) s1 = (None, s2)
          \<and> perform B NewPage s2 = (None, s3) \<and> fill_page C B flds boxes True s3 = (Inr r, s4)
          \<and> perform B Close s4 = (None, s5) \<and> perform B Stop s5 = (None, s6)
          \<longrightarrow> populate_form C B flds boxes s = (r, s6))"
  by (simp add: populate_form_def populate_body_def step_def Let_def split: option.splits)

lemma visible_launch_raises:
  "(\<forall>e s1 s2. \<not> HEADLESS_MODE C \<and> perform B Start s = (None, s1) \<and> perform B (Launch False (Some 50)) s1 = (Some e, s2)
          \<longrightarrow> populate_form C B flds boxes s = (failure (''Form population failed: '' @ e), s2))"
  by (simp add: populate_form_def populate_body_def step_def Let_def split: option.splits)

lemma visible_new_page_raises:
  "(\<forall>e s1 s2 s3. \<not> HEADLESS_MODE C \<and> perform B Start s = (None, s1) \<and> perform B (Launch False (Some 50)) s1 = (None, s2)
          \<and> perform B NewPage s2 = (Some e, s3)
          \<longrightarrow> populate_form C B flds boxes s = (failure (''Form population failed: '' @ e), s3))"
  by (simp add: populate_form_def populate_body_def step_def Let_def split: option.splits)

lemma visible_page_raises:
  "(\<forall>e s1 s2 s3 s4. \<not> HEADLESS_MODE C \<and> perform B Start s = (None, s1) \<and> perform B (Launch False (Some 50)) s1 = (None, s2)
          \<and> perform B NewPage s2 = (None, s3) \<and> fill_page C B flds boxes False s3 = (Inl e, s4)
          \<longrightarrow> populate_form C B flds boxes s = (failure (''Form population failed: '' @ e), s4))"
  by (simp add: populate_form_def populate_body_def step_def Let_def split: option.splits)

lemma visible_returns:
  "(\<forall>r s1 s2 s3 s4. \<not> HEADLESS_MODE C \<and> perform B Start s = (None, s1) \<and> perform B (Launch False (Some 50)) s1 = (None, s2)
          \<and> perform B NewPage s2 = (None, s3) \<and> fill_page C B flds boxes False s3 = (Inr r, s4)
          \<longrightarrow> populate_form C B flds boxes s = (r, s4))"
  by (simp add: populate_form_def populate_body_def step_def Let_def split: option.splits)

text \<open>
  C10 (as amended). For every field map, checkbox map and browser, \<open>populate_form\<close>
  returns a result dictionary and never raises: it ends either with the failure
  dictionary or with the report of a completed run.

  Fields and checkboxes. Each field whose value is not empty and each checkbox is set
  inside a \<open>try\<close> of its own. The outcome of one field is false when counting its
  elements raises, when there is no element, when reading the tag raises or when
  \<open>fill\<close> (\<open>select_option\<close> for a \<open>select\<close>) raises, and true when that call returns;
  the outcome of one checkbox is false when counting raises, when there is no element
  or when \<open>check\<close> (\<open>uncheck\<close>) raises, and true when that call returns. In the lists
  with which the two loops end, the identifier of a field or checkbox whose outcome is
  true is in \<open>filled_fields\<close> and that of one whose outcome is false is in
  \<open>failed_fields\<close>, and, when no other field or checkbox bears the same identifier,
  it is not in the other list: the exception of one field does not end the run. A
  field whose value is empty is passed over. The two lists together have one entry for
  every entered field and every checkbox.

  The page. An exception of the navigation, of the wait for the load, of the
  screenshot or of the PDF export leaves \<open>_fill_page\<close>; otherwise it returns the report
  of the two lists, with the screenshot path and with the PDF path exactly when a PDF
  was asked for.

  The browser. An exception of the start, of the launch, of the new page, of
  \<open>_fill_page\<close> or of the closing gives the failure dictionary with the message
  \<open>Form population failed:\<close> followed by the exception's text. Headless, the \<open>with\<close>
  block is left through the stop whether its body returned or raised, and an exception
  of the stop takes the place of either; visible, nothing is closed. When nothing
  raises outside the two loops, the report of \<open>_fill_page\<close> is returned as it is.

  The failure dictionary has \<open>success\<close> false, zero filled and zero failed fields, no
  field in either list, no artifact path and the error message; a report has no error
  and \<open>success\<close> true exactly when at least one field or checkbox was filled.
\<close>

theorem populate_form_outcome:
  "(\<forall>r s1. populate_body C B flds boxes s = (Inr r, s1) \<longrightarrow>
         populate_form C B flds boxes s = (r, s1) \<and> completed (HEADLESS_MODE C) flds boxes r)
   \<and> (\<forall>e s1. populate_body C B flds boxes s = (Inl e, s1) \<longrightarrow>
         populate_form C B flds boxes s = (failure (''Form population failed: '' @ e), s1))
   \<and> ((\<exists>e. fst (populate_form C B flds boxes s) = failure (''Form population failed: '' @ e))
      \<or> completed (HEADLESS_MODE C) flds boxes (fst (populate_form C B flds boxes s)))
   \<and> (\<forall>e s1. element_count B (field_element k) s = (Inl e, s1) \<longrightarrow> fill_field B k v s = (False, s1))
   \<and> (\<forall>s1. element_count B (field_element k) s = (Inr 0, s1) \<longrightarrow> fill_field B k v s = (False, s1))
   \<and> (\<forall>n e s1 s2. element_count B (field_element k) s = (Inr n, s1) \<and> 0 < n
          \<and> element_tag B (field_element k) s1 = (Inl e, s2) \<longrightarrow> fill_field B k v s = (False, s2))
   \<and> (\<forall>n tag e s1 s2 s3. element_count B (field_element k) s = (Inr n, s1) \<and> 0 < n
          \<and> element_tag B (field_element k) s1 = (Inr tag, s2)
          \<and> perform B (if tag = ''select'' then SelectOption (field_element k) v else Fill (field_element k) v) s2 = (Some e, s3)
          \<longrightarrow> fill_field B k v s = (False, s3))
   \<and> (\<forall>n tag s1 s2 s3. element_count B (field_element k) s = (Inr n, s1) \<and> 0 < n
          \<and> element_tag B (field_element k) s1 = (Inr tag, s2)
          \<and> perform B (if tag = ''select'' then SelectOption (field_element k) v else Fill (field_element k) v) s2 = (None, s3)
          \<longrightarrow> fill_field B k v s = (True, s3))
   \<and> (\<forall>e s1. element_count B (Locator (''#'' @ k) None) s = (Inl e, s1) \<longrightarrow> set_checkbox B k b s = (False, s1))
   \<and> (\<forall>s1. element_count B (Locator (''#'' @ k) None) s = (Inr 0, s1) \<longrightarrow> set_checkbox B k b s = (False, s1))
   \<and> (\<forall>n e s1 s2. element_count B (Locator (''#'' @ k) None) s = (Inr n, s1) \<and> 0 < n
          \<and> perform B (if b then Check (Locator (''#'' @ k) None) else Uncheck (Locator (''#'' @ k) None)) s1 = (Some e, s2)
          \<longrightarrow> set_checkbox B k b s = (False, s2))
   \<and> (\<forall>n s1 s2. element_count B (Locator (''#'' @ k) None) s = (Inr n, s1) \<and> 0 < n
          \<and> perform B (if b then Check (Locator (''#'' @ k) None) else Uncheck (Locator (''#'' @ k) None)) s1 = (None, s2)
          \<longrightarrow> set_checkbox B k b s = (True, s2))
   \<and> (\<forall>pre post. flds = pre @ (k, v) # post \<and> v \<noteq> [] \<longrightarrow>
         (if fst (fill_field B k v (snd (fill_fields B pre ([], []) s)))
          then k \<in> set (fst (fst (loops B flds boxes s))) else k \<in> set (snd (fst (loops B flds boxes s)))))
   \<and> (\<forall>pre post. flds = pre @ (k, v) # post \<and> v \<noteq> []
          \<and> k \<notin> fst ` set pre \<and> k \<notin> fst ` set post \<and> k \<notin> fst ` set boxes \<longrightarrow>
         (if fst (fill_field B k v (snd (fill_fields B pre ([], []) s)))
          then k \<notin> set (snd (fst (loops B flds boxes s))) else k \<notin> set (fst (fst (loops B flds boxes s)))))
   \<and> (\<forall>pre post. boxes = pre @ (k, b) # post \<longrightarrow>
         (if fst (set_checkbox B k b (snd (loops B flds pre s)))
          then k \<in> set (fst (fst (loops B flds boxes s))) else k \<in> set (snd (fst (loops B flds boxes s)))))
   \<and> (\<forall>pre post. boxes = pre @ (k, b) # post
          \<and> k \<notin> fst ` set flds \<and> k \<notin> fst ` set pre \<and> k \<notin> fst ` set post \<longrightarrow>
         (if fst (set_checkbox B k b (snd (loops B flds pre s)))
          then k \<notin> set (snd (fst (loops B flds boxes s))) else k \<notin> set (fst (fst (loops B flds boxes s)))))
   \<and> (\<forall>pre post. flds = pre @ (k, []) # post \<longrightarrow>
         loops B flds boxes s = loops B (pre @ post) boxes s)
   \<and> length (fst (fst (loops B flds boxes s))) + length (snd (fst (loops B flds boxes s)))
       = entered flds + length boxes
   \<and> (\<forall>e s1. perform B (Goto (FORM_URL C)) s = (Some e, s1) \<longrightarrow> fill_page C B flds boxes g s = (Inl e, s1))
   \<and> (\<forall>e s1 s2. perform B (Goto (FORM_URL C)) s = (None, s1) \<and> perform B (WaitForLoadState ''networkidle'') s1 = (Some e, s2)
          \<longrightarrow> fill_page C B flds boxes g s = (Inl e, s2))
   \<and> (\<forall>e s1 s2 s3. perform B (Goto (FORM_URL C)) s = (None, s1) \<and> perform B (WaitForLoadState ''networkidle'') s1 = (None, s2)
          \<and> perform B (Screenshot ''uploads/form_populated.png'') (snd (loops B flds boxes s2)) = (Some e, s3)
          \<longrightarrow> fill_page C B flds boxes g s = (Inl e, s3))
   \<and> (\<forall>e s1 s2 s3 s4. perform B (Goto (FORM_URL C)) s = (None, s1) \<and> perform B (WaitForLoadState ''networkidle'') s1 = (None, s2)
          \<and> perform B (Screenshot ''uploads/form_populated.png'') (snd (loops B flds boxes s2)) = (None, s3)
          \<and> perform B (Pdf ''uploads/form_filled.pdf'') s3 = (Some e, s4)
          \<longrightarrow> fill_page C B flds boxes True s = (Inl e, s4))
   \<and> (\<forall>s1 s2 s3 s4. perform B (Goto (FORM_URL C)) s = (None, s1) \<and> perform B (WaitForLoadState ''networkidle'') s1 = (None, s2)
          \<and> perform B (Screenshot ''uploads/form_populated.png'') (snd (loops B flds boxes s2)) = (None, s3)
          \<and> perform B (Pdf ''uploads/form_filled.pdf'') s3 = (None, s4)
          \<longrightarrow> fill_page C B flds boxes True s
              = (Inr (report (fst (loops B flds boxes s2)) (Some ''uploads/form_populated.png'') (Some ''uploads/form_filled.pdf'')), s4))
   \<and> (\<forall>s1 s2 s3. perform B (Goto (FORM_URL C)) s = (None, s1) \<and> perform B (WaitForLoadState ''networkidle'') s1 = (None, s2)
          \<and> perform B (Screenshot ''uploads/form_populated.png'') (snd (loops B flds boxes s2)) = (None, s3)
          \<longrightarrow> fill_page C B flds boxes False s
              = (Inr (report (fst (loops B flds boxes s2)) (Some ''uploads/form_populated.png'') None), s3))
   \<and> (\<forall>e s1. perform B Start s = (Some e, s1) \<longrightarrow> populate_form C B flds boxes s = (failure (''Form population failed: '' @ e), s1))
   \<and> (\<forall>e x s1 s2 s3. HEADLESS_MODE C \<and> perform B Start s = (None, s1) \<and> perform B (Launch True None) s1 = (Some e, s2)
          \<and> perform B Stop s2 = (x, s3)
          \<longrightarrow> populate_form C B flds boxes s = (failure (''Form population failed: '' @ (case x of None \<Rightarrow> e | Some e' \<Rightarrow> e')), s3))
   \<and> (\<forall>e x s1 s2 s3 s4. HEADLESS_MODE C \<and> perform B Start s = (None, s1) \<and> perform B (Launch True None) s1 = (None, s2)
          \<and> perform B NewPage s2 = (Some e, s3) \<and> perform B Stop s3 = (x, s4)
          \<longrightarrow> populate_form C B flds boxes s = (failure (''Form population failed: '' @ (case x of None \<Rightarrow> e | Some e' \<Rightarrow> e')), s4))
   \<and> (\<forall>e x s1 s2 s3 s4 s5. HEADLESS_MODE C \<and> perform B Start s = (None, s1) \<and> perform B (Launch True None) s1 = (None, s2)
          \<and> perform B NewPage s2 = (None, s3) \<and> fill_page C B flds boxes True s3 = (Inl e, s4)
          \<and> perform B Stop s4 = (x, s5)
          \<longrightarrow> populate_form C B flds boxes s = (failure (''Form population failed: '' @ (case x of None \<Rightarrow> e | Some e' \<Rightarrow> e')), s5))
   \<and> (\<forall>r e x s1 s2 s3 s4 s5 s6. HEADLESS_MODE C \<and> perform B Start s = (None, s1) \<and> perform B (Launch True None) s1 = (None, s2)
          \<and> perform B NewPage s2 = (None, s3) \<and> fill_page C B flds boxes True s3 = (Inr r, s4)
          \<and> perform B Close s4 = (Some e, s5) \<and> perform B Stop s5 = (x, s6)
          \<longrightarrow> populate_form C B flds boxes s = (failure (''Form population failed: '' @ (case x of None \<Rightarrow> e | Some e' \<Rightarrow> e')), s6))
   \<and> (\<forall>r e s1 s2 s3 s4 s5 s6. HEADLESS_MODE C \<and> perform B Start s = (None, s1) \<and> perform B (Launch True None) s1 = (None, s2)
          \<and> perform B NewPage s2 = (None, s3) \<and> fill_page C B flds boxes True s3 = (Inr r, s4)
          \<and> perform B Close s4 = (None, s5) \<and> perform B Stop s5 = (Some e, s6)
          \<longrightarrow> populate_form C B flds boxes s = (failure (''Form population failed: '' @ e), s6))
   \<and> (\<forall>r s1 s2 s3 s4 s5 s6. HEADLESS_MODE C \<and> perform B Start s = (None, s1) \<and> perform B (Launch True None) s1 = (None, s2)
          \<and> perform B NewPage s2 = (None, s3) \<and> fill_page C B flds boxes True s3 = (Inr r, s4)
          \<and> perform B Close s4 = (None, s5) \<and> perform B Stop s5 = (None, s6)
          \<longrightarrow> populate_form C B flds boxes s = (r, s6))
   \<and> (\<forall>e s1 s2. \<not> HEADLESS_MODE C \<and> perform B Start s = (None, s1) \<and> perform B (Launch False (Some 50)) s1 = (Some e, s2)
          \<longrightarrow> populate_form C B flds boxes s = (failure (''Form population failed: '' @ e), s2))
   \<and> (\<forall>e s1 s2 s3. \<not> HEADLESS_MODE C \<and> perform B Start s = (None, s1) \<and> perform B (Launch False (Some 50)) s1 = (None, s2)
          \<and> perform B NewPage s2 = (Some e, s3)
          \<longrightarrow> populate_form C B flds boxes s = (failure (''Form population failed: '' @ e), s3))
   \<and> (\<forall>e s1 s2 s3 s4. \<not> HEADLESS_MODE C \<and> perform B Start s = (None, s1) \<and> perform B (Launch False (Some 50)) s1 = (None, s2)
          \<and> perform B NewPage s2 = (None, s3) \<and> fill_page C B flds boxes False s3 = (Inl e, s4)
          \<longrightarrow> populate_form C B flds boxes s = (failure (''Form population failed: '' @ e), s4))
   \<and> (\<forall>r s1 s2 s3 s4. \<not> HEADLESS_MODE C \<and> perform B Start s = (None, s1) \<and> perform B (Launch False (Some 50)) s1 = (None, s2)
          \<and> perform B NewPage s2 = (None, s3) \<and> fill_page C B flds boxes False s3 = (Inr r, s4)
          \<longrightarrow> populate_form C B flds boxes s = (r, s4))
   \<and> success (failure m) = False
   \<and> total_filled (failure m) = 0
   \<and> total_failed (failure m) = 0
   \<and> filled_fields (failure m) = []
   \<and> failed_fields (failure m) = []
   \<and> screenshot_path (failure m) = None
   \<and> pdf_path (failure m) = None
   \<and> error (failure m) = Some m
   \<and> success (report both shot pdf) = (fst both \<noteq> [])
   \<and> total_filled (report both shot pdf) = length (fst both)
   \<and> total_failed (report both shot pdf) = length (snd both)
   \<and> filled_fields (report both shot pdf) = fst both
   \<and> failed_fields (report both shot pdf) = snd both
   \<and> screenshot_path (report both shot pdf) = shot
   \<and> pdf_path (report both shot pdf) = pdf
   \<and> error (report both shot pdf) = None"
  by (intro conjI) (rule body_returns | rule body_raises | rule either_outcome | rule field_count_raises | rule field_absent | rule field_tag_raises | rule field_action_raises | rule field_action_returns | rule checkbox_count_raises | rule checkbox_absent | rule checkbox_action_raises | rule checkbox_action_returns | rule field_recorded | rule field_recorded_once | rule checkbox_recorded | rule checkbox_recorded_once | rule empty_value_skipped | rule loops_count | rule goto_raises | rule wait_raises | rule screenshot_raises | rule pdf_raises | rule page_with_pdf | rule page_without_pdf | rule start_raises | rule headless_launch_raises | rule headless_new_page_raises | rule headless_page_raises | rule headless_close_raises | rule headless_stop_raises | rule headless_returns | rule visible_launch_raises | rule visible_new_page_raises | rule visible_page_raises | rule visible_returns | simp add: failure_def report_def)+

lemmas eval_form = populate_form_def populate_body_def fill_page_def step_def fill_field_def
  set_checkbox_def recording_def report_def failure_def default_config_def two_fields_def
  number_times_out_def screenshot_fails_def

theorem populate_form_outcome_witness:
  "populate_form default_config (recording number_times_out) two_fields [(''not-subject'', True)] []
   = (\<lparr>success = True, total_filled = 2, total_failed = 1,
       filled_fields = [''passport-surname'', ''not-subject''],
       failed_fields = [''passport-number''],
       screenshot_path = Some ''uploads/form_populated.png'',
       pdf_path = Some ''uploads/form_filled.pdf'', error = None\<rparr>,
      [Start, Launch True None, NewPage, Goto ''http://localhost:8000/form'',
       WaitForLoadState ''networkidle'',
       Fill (Locator ''#passport-surname'' None) ''DOE'',
       Fill (Locator ''#passport-number'' None) ''L898'',
       Check (Locator ''#not-subject'' None),
       Screenshot ''uploads/form_populated.png'', Pdf ''uploads/form_filled.pdf'', Close, Stop])"
proof -
  have "populate_body default_config (recording number_times_out) two_fields
          [(''not-subject'', True)] []
   = (Inr \<lparr>success = True, total_filled = 2, total_failed = 1,
       filled_fields = [''passport-surname'', ''not-subject''],
       failed_fields = [''passport-number''],
       screenshot_path = Some ''uploads/form_populated.png'',
       pdf_path = Some ''uploads/form_filled.pdf'', error = None\<rparr>,
      [Start, Launch True None, NewPage, Goto ''http://localhost:8000/form'',
       WaitForLoadState ''networkidle'',
       Fill (Locator ''#passport-surname'' None) ''DOE'',
       Fill (Locator ''#passport-number'' None) ''L898'',
       Check (Locator ''#not-subject'' None),
       Screenshot ''uploads/form_populated.png'', Pdf ''uploads/form_filled.pdf'', Close, Stop])"
    by (simp add: eval_form Let_def)
  with populate_form_outcome [of default_config "recording number_times_out" two_fields
      "[(''not-subject'', True)]" "[]", THEN conjunct1]
  show ?thesis by blast
qed

theorem field_exception_counterexample:
  "populate_form default_config (recording number_times_out) two_fields [] []
   = (\<lparr>success = True, total_filled = 1, total_failed = 1,
       filled_fields = [''passport-surname''], failed_fields = [''passport-number''],
       screenshot_path = Some ''uploads/form_populated.png'',
       pdf_path = Some ''uploads/form_filled.pdf'', error = None\<rparr>,
      [Start, Launch True None, NewPage, Goto ''http://localhost:8000/form'',
       WaitForLoadState ''networkidle'',
       Fill (Locator ''#passport-surname'' None) ''DOE'',
       Fill (Locator ''#passport-number'' None) ''L898'',
       Screenshot ''uploads/form_populated.png'', Pdf ''uploads/form_filled.pdf'', Close, Stop])
   \<and> populate_form default_config (recording screenshot_fails) two_fields [] []
   = (\<lparr>success = False, total_filled = 0, total_failed = 0,
       filled_fields = [], failed_fields = [],
       screenshot_path = None, pdf_path = None,
       error = Some ''Form population failed: No such file or directory: uploads''\<rparr>,
      [Start, Launch True None, NewPage, Goto ''http://localhost:8000/form'',
       WaitForLoadState ''networkidle'',
       Fill (Locator ''#passport-surname'' None) ''DOE'',
       Fill (Locator ''#passport-number'' None) ''L898'',
       Screenshot ''uploads/form_populated.png'', Stop])"
  by (simp add: eval_form Let_def)

end
